theory Spec2Isabelle
  imports Main "HOL-Library.Sublist"
begin

section \<open>The WinDock release script (release.py) in HOL\<close>

text \<open>
  The development embeds \<^verbatim>\<open>release.py\<close>: the class \<^verbatim>\<open>ReleaseManager\<close> and \<^verbatim>\<open>main\<close>.

  \<^item> Python strings are lists of characters. A \<^typ>\<open>char\<close> is read as a code point below
    256; on that range Python's \<^verbatim>\<open>\d\<close>, \<^verbatim>\<open>int()\<close> digits and \<^verbatim>\<open>str.strip()\<close>
    white space are exactly the sets written out below.
  \<^item> Printed lines are kept in the field \<open>out\<close>; the pictograph each message begins with
    (and the blank after it) is not ASCII and is left out of the modelled line.
  \<^item> Everything outside the script (the file system, child processes, GitPython, plistlib,
    the clock) is a parameter: the file system is a component of the state, the rest are
    fields of the record \<open>env\<close>.
  \<^item> A Python exception is a value: every method returns \<open>(Inl e, w)\<close> when it raises
    \<open>e\<close> in state \<open>w\<close>, and \<open>(Inr x, w)\<close> when it returns \<open>x\<close>.
  \<^item> Python integers are unbounded (\<^typ>\<open>int\<close>); the interpreter's configurable limit on
    the length of decimal strings is not modelled.
\<close>

subsection \<open>Python strings\<close>

definition is_digit :: "char \<Rightarrow> bool" where
  "is_digit c = (48 \<le> (of_char c :: nat) \<and> (of_char c :: nat) \<le> 57)"

definition is_space :: "char \<Rightarrow> bool" where
  "is_space c =
     (let n = (of_char c :: nat)
      in (9 \<le> n \<and> n \<le> 13) \<or> (28 \<le> n \<and> n \<le> 32) \<or> n = 133 \<or> n = 160)"

definition py_strip :: "string \<Rightarrow> string" where
  "py_strip s = rev (dropWhile is_space (rev (dropWhile is_space s)))"

text \<open>\<^verbatim>\<open>sub in s\<close> for strings.\<close>

fun contains :: "string \<Rightarrow> string \<Rightarrow> bool" where
  "contains sub [] = (sub = [])"
| "contains sub (c # cs) = (prefix sub (c # cs) \<or> contains sub cs)"

text \<open>
  \<^verbatim>\<open>s.split(sep)\<close> for a separator that is not empty (every separator in the script is
  a literal): \<open>acc\<close> holds the current piece, reversed.
\<close>

function split_from :: "string \<Rightarrow> string \<Rightarrow> string \<Rightarrow> string list" where
  "split_from sep acc [] = [rev acc]"
| "split_from sep acc (c # cs) =
     (if sep \<noteq> [] \<and> prefix sep (c # cs)
      then rev acc # split_from sep [] (drop (length sep) (c # cs))
      else split_from sep (c # acc) cs)"
  by pat_completeness auto
termination
  by (relation "measure (\<lambda>(sep, acc, s). length s)") auto

definition py_split :: "string \<Rightarrow> string \<Rightarrow> string list" where
  "py_split sep s = split_from sep [] s"

text \<open>
  \<^verbatim>\<open>s.split()\<close>: the pieces between runs of white space. The script reads only element 0,
  so the model is the list's first element, if there is one.
\<close>

definition first_token :: "string \<Rightarrow> string option" where
  "first_token s =
     (let t = dropWhile is_space s
      in if t = [] then None else Some (takeWhile (\<lambda>c. \<not> is_space c) t))"

text \<open>
  \<^verbatim>\<open>s.splitlines()\<close>: lines end at \<^verbatim>\<open>\n\<close>, \<^verbatim>\<open>\r\<close>, \<^verbatim>\<open>\r\n\<close>, \<^verbatim>\<open>\v\<close>, \<^verbatim>\<open>\f\<close>,
  \<^verbatim>\<open>\x1c\<close>, \<^verbatim>\<open>\x1d\<close>, \<^verbatim>\<open>\x1e\<close> and \<^verbatim>\<open>\x85\<close>; no empty last line.
\<close>

definition is_linebreak :: "char \<Rightarrow> bool" where
  "is_linebreak c =
     (let n = (of_char c :: nat)
      in (10 \<le> n \<and> n \<le> 13) \<or> (28 \<le> n \<and> n \<le> 30) \<or> n = 133)"

fun lines_from :: "string \<Rightarrow> string \<Rightarrow> string list" where
  "lines_from acc [] = (if acc = [] then [] else [rev acc])"
| "lines_from acc [c] = (if is_linebreak c then [rev acc] else [rev (c # acc)])"
| "lines_from acc (c # d # cs) =
     (if c = CHR 0x0D \<and> d = CHR 0x0A then rev acc # lines_from [] cs
      else if is_linebreak c then rev acc # lines_from [] (d # cs)
      else lines_from (c # acc) (d # cs))"

definition splitlines :: "string \<Rightarrow> string list" where
  "splitlines s = lines_from [] s"

subsection \<open>Python integers and their decimal strings\<close>

definition digit_char :: "nat \<Rightarrow> char" where
  "digit_char d = char_of (48 + d)"

definition digit_val :: "char \<Rightarrow> nat" where
  "digit_val c = of_char c - 48"

fun str_nat :: "nat \<Rightarrow> string" where
  "str_nat n = (if n < 10 then [digit_char n] else str_nat (n div 10) @ [digit_char (n mod 10)])"

text \<open>\<^verbatim>\<open>str(i)\<close>, as an f-string formats an integer.\<close>

definition str_int :: "int \<Rightarrow> string" where
  "str_int i = (if i < 0 then CHR ''-'' # str_nat (nat (- i)) else str_nat (nat i))"

text \<open>
  The digits of \<^verbatim>\<open>int(s)\<close>: decimal digits, with single underscores allowed between
  digits. \<open>prev\<close> says whether the character before was a digit.
\<close>

fun digits_value :: "bool \<Rightarrow> nat \<Rightarrow> string \<Rightarrow> nat option" where
  "digits_value prev acc [] = (if prev then Some acc else None)"
| "digits_value prev acc (c # cs) =
     (if is_digit c then digits_value True (10 * acc + digit_val c) cs
      else if c = CHR ''_'' \<and> prev then digits_value False acc cs
      else None)"

datatype exn_class =
  RuntimeError | CalledProcessError | FileNotFoundError | PermissionError | OSError
  | IsADirectoryError | NotADirectoryError | FileExistsError
  | AttributeError | ValueError | IndexError | TypeError | UnboundLocalError
  | InvalidFileException | ReError | GitError

text \<open>An exception: its class and \<^verbatim>\<open>str(e)\<close>.\<close>

datatype exn = Exn exn_class string

fun exn_class_of :: "exn \<Rightarrow> exn_class" where
  "exn_class_of (Exn c m) = c"

fun exn_str :: "exn \<Rightarrow> string" where
  "exn_str (Exn c m) = m"

text \<open>\<^verbatim>\<open>int(s)\<close> in base 10: white space around, an optional sign, then the digits.\<close>

definition py_int :: "string \<Rightarrow> exn + int" where
  "py_int s =
     (let t = py_strip s;
          bad = Inl (Exn ValueError (''invalid literal for int() with base 10: '' @ s))
      in case t of
           [] \<Rightarrow> bad
         | c # cs \<Rightarrow>
             if c = CHR ''-'' then
               (case digits_value False 0 cs of None \<Rightarrow> bad | Some n \<Rightarrow> Inr (- int n))
             else if c = CHR ''+'' then
               (case digits_value False 0 cs of None \<Rightarrow> bad | Some n \<Rightarrow> Inr (int n))
             else
               (case digits_value False 0 t of None \<Rightarrow> bad | Some n \<Rightarrow> Inr (int n)))"

subsection \<open>The file system, the environment and the state\<close>

text \<open>A path is the list of its components below the root; every path here is absolute.\<close>

type_synonym path = "string list"

datatype node = File string | Dir

type_synonym filesys = "path \<Rightarrow> node option"

definition path_str :: "path \<Rightarrow> string" where
  "path_str p = (if p = [] then ''/'' else concat (map (\<lambda>c. CHR ''/'' # c) p))"

definition path_name :: "path \<Rightarrow> string" where
  "path_name p = (if p = [] then [] else last p)"

definition parent :: "path \<Rightarrow> path" where
  "parent p = butlast p"

text \<open>
  A value of the property list: a string, or anything else (with its \<^verbatim>\<open>str()\<close>).
  \<^verbatim>\<open>plistlib\<close> is not part of the repository: \<open>plist_load\<close> and \<open>plist_dump\<close> are
  parameters. \<open>plist_dump\<close> gives the bytes written and whether the writer finished
  (it raises \<^verbatim>\<open>TypeError\<close> at a value it cannot write, after the file was opened
  for writing).
\<close>

datatype pvalue = PStr string | POther string

fun pvalue_str :: "pvalue \<Rightarrow> string" where
  "pvalue_str (PStr s) = s"
| "pvalue_str (POther s) = s"

type_synonym plist = "string \<Rightarrow> pvalue option"

text \<open>
  A child process either cannot be started (\<^verbatim>\<open>subprocess.run\<close> raises an
  \<^verbatim>\<open>OSError\<close>) or completes with a return code, its standard output and error, and the
  file system it leaves behind.
\<close>

datatype os_error = ENOENT | EACCES | Other_errno

datatype proc_outcome = Not_started os_error | Completed int string string filesys

text \<open>The GitPython calls the script makes.\<close>

datatype git_op =
  Repo path | Git_add string | Index_commit string | Remote string
  | Push "string option" | Create_tag string string | Tags | Iter_commits "string option"

datatype call = Subprocess "string list" | GitPython git_op

text \<open>
  The environment. Every oracle gets the number of external calls made so far, so it may
  answer the same question differently each time, and the current file system.
  \<^item> \<open>proc n argv cwd fs\<close>: the child process \<open>argv\<close> started in \<open>cwd\<close>;
  \<^item> \<open>git_do\<close>: a GitPython call that returns nothing the script reads (\<open>Inl\<close>: it raises);
  \<^item> \<open>git_push\<close>: \<^verbatim>\<open>origin.push(...)\<close>, one flag per \<^verbatim>\<open>PushInfo\<close>: whether its
    \<^verbatim>\<open>ERROR\<close> bit is set;
  \<^item> \<open>git_list\<close>: \<^verbatim>\<open>repo.tags\<close> (the tag names) and \<^verbatim>\<open>repo.iter_commits(...)\<close> (the
    commit summaries);
  \<^item> \<open>zip_of fs dir base\<close>: the bytes \<^verbatim>\<open>shutil.make_archive\<close> writes for \<open>base\<close> under
    \<open>dir\<close>, or the message of the exception it raises;
  \<^item> \<open>listing fs dir\<close>: the lines the listing loop of \<^verbatim>\<open>build_app\<close> prints (kind, size,
    time and name of each entry) and, when \<^verbatim>\<open>iterdir\<close> or \<^verbatim>\<open>stat\<close> raises after them,
    the message of that exception;
  \<^item> \<open>template\<close>: what \<^verbatim>\<open>re\<close> makes of a replacement string that holds a backslash
    (a function of the matched text), or \<open>None\<close> when it raises \<^verbatim>\<open>re.error\<close>;
  \<^item> \<open>today\<close>: \<^verbatim>\<open>datetime.now().strftime('%Y-%m-%d')\<close>.
\<close>

record env =
  root_dir :: path
  have_gitpython :: bool
  have_pygithub :: bool
  proc :: "nat \<Rightarrow> string list \<Rightarrow> path \<Rightarrow> filesys \<Rightarrow> proc_outcome"
  git_do :: "nat \<Rightarrow> git_op \<Rightarrow> filesys \<Rightarrow> string + filesys"
  git_push :: "nat \<Rightarrow> string option \<Rightarrow> filesys \<Rightarrow> string + bool list \<times> filesys"
  git_list :: "nat \<Rightarrow> git_op \<Rightarrow> filesys \<Rightarrow> string + string list"
  plist_load :: "string \<Rightarrow> plist option"
  plist_dump :: "plist \<Rightarrow> string \<times> bool"
  zip_of :: "filesys \<Rightarrow> path \<Rightarrow> string \<Rightarrow> string + string"
  listing :: "filesys \<Rightarrow> path \<Rightarrow> string list \<times> string option"
  template :: "string \<Rightarrow> (string \<Rightarrow> string) option"
  today :: string

text \<open>
  The state: the file system, the working directory of the process, the lines printed,
  the external calls made, the attributes of the \<^verbatim>\<open>ReleaseManager\<close> (\<open>None\<close>: the
  attribute holds \<^verbatim>\<open>None\<close> or was never set) and the local variable
  \<^verbatim>\<open>original_dir\<close> of \<^verbatim>\<open>submit_to_homebrew\<close> (\<open>None\<close>: not bound).
\<close>

record world =
  fs :: filesys
  cwd :: path
  out :: "string list"
  calls :: "call list"
  current_version :: "pvalue option"
  new_version :: "string option"
  tag_name :: "string option"
  release_notes :: "string option"
  dry_run :: bool
  original_dir :: "path option"

type_synonym 'a prog = "world \<Rightarrow> (exn + 'a) \<times> world"

subsection \<open>Control flow\<close>

definition succeed :: "'a \<Rightarrow> 'a prog" where
  "succeed x = (\<lambda>w. (Inr x, w))"

definition raise :: "exn \<Rightarrow> 'a prog" where
  "raise e = (\<lambda>w. (Inl e, w))"

definition and_then :: "'a prog \<Rightarrow> ('a \<Rightarrow> 'b prog) \<Rightarrow> 'b prog" where
  "and_then m f = (\<lambda>w. case m w of (Inl e, w') \<Rightarrow> (Inl e, w') | (Inr x, w') \<Rightarrow> f x w')"

definition then_do :: "'a prog \<Rightarrow> 'b prog \<Rightarrow> 'b prog" where
  "then_do m n = and_then m (\<lambda>_. n)"

text \<open>A block of statements.\<close>

fun block :: "unit prog list \<Rightarrow> unit prog" where
  "block [] = succeed ()"
| "block (m # ms) = then_do m (block ms)"

text \<open>\<^verbatim>\<open>try: m  except Exception as e: h e\<close> (every modelled exception is an \<^verbatim>\<open>Exception\<close>).\<close>

definition try_except :: "'a prog \<Rightarrow> (exn \<Rightarrow> 'a prog) \<Rightarrow> 'a prog" where
  "try_except m h = (\<lambda>w. case m w of (Inl e, w') \<Rightarrow> h e w' | (Inr x, w') \<Rightarrow> (Inr x, w'))"

text \<open>\<^verbatim>\<open>try: m  finally: f\<close>: \<open>f\<close> runs on every exit of \<open>m\<close>; what \<open>f\<close> raises replaces the outcome.\<close>

definition try_finally :: "'a prog \<Rightarrow> unit prog \<Rightarrow> 'a prog" where
  "try_finally m f =
     (\<lambda>w. case m w of (r, w') \<Rightarrow> (case f w' of (Inl e, w'') \<Rightarrow> (Inl e, w'') | (Inr u, w'') \<Rightarrow> (r, w'')))"

text \<open>A statement that reads the state to choose what runs.\<close>

definition reading :: "(world \<Rightarrow> 'a prog) \<Rightarrow> 'a prog" where
  "reading f = (\<lambda>w. f w w)"

definition modify :: "(world \<Rightarrow> world) \<Rightarrow> unit prog" where
  "modify f = (\<lambda>w. (Inr (), f w))"

text \<open>A pure computation that may raise.\<close>

definition lift :: "exn + 'a \<Rightarrow> 'a prog" where
  "lift r = (\<lambda>w. (r, w))"

text \<open>\<^verbatim>\<open>print(s)\<close>.\<close>

definition say :: "string \<Rightarrow> unit prog" where
  "say s = modify (\<lambda>w. w\<lparr>out := out w @ [s]\<rparr>)"

subsection \<open>Files and directories\<close>

definition os_exn :: "exn_class \<Rightarrow> string \<Rightarrow> path \<Rightarrow> exn" where
  "os_exn c what p = Exn c (what @ '': '' @ path_str p)"

text \<open>\<^verbatim>\<open>Path.exists()\<close> and \<^verbatim>\<open>Path.is_dir()\<close>.\<close>

definition path_exists :: "path \<Rightarrow> world \<Rightarrow> bool" where
  "path_exists p w = (fs w p \<noteq> None)"

definition is_dir :: "path \<Rightarrow> world \<Rightarrow> bool" where
  "is_dir p w = (fs w p = Some Dir)"

text \<open>\<^verbatim>\<open>open(p).read()\<close>.\<close>

definition read_file :: "path \<Rightarrow> string prog" where
  "read_file p =
     (\<lambda>w. case fs w p of
            None \<Rightarrow> (Inl (os_exn FileNotFoundError ''No such file or directory'' p), w)
          | Some Dir \<Rightarrow> (Inl (os_exn IsADirectoryError ''Is a directory'' p), w)
          | Some (File s) \<Rightarrow> (Inr s, w))"

text \<open>\<^verbatim>\<open>open(p, "w")\<close> followed by the write of \<open>s\<close>: the file is created or replaced.\<close>

definition write_file :: "path \<Rightarrow> string \<Rightarrow> unit prog" where
  "write_file p s =
     (\<lambda>w. if fs w p = Some Dir then (Inl (os_exn IsADirectoryError ''Is a directory'' p), w)
          else case fs w (parent p) of
                 None \<Rightarrow> (Inl (os_exn FileNotFoundError ''No such file or directory'' p), w)
               | Some (File c) \<Rightarrow> (Inl (os_exn NotADirectoryError ''Not a directory'' p), w)
               | Some Dir \<Rightarrow> (Inr (), w\<lparr>fs := (fs w)(p \<mapsto> File s)\<rparr>))"

text \<open>\<^verbatim>\<open>Path.unlink()\<close> / \<^verbatim>\<open>os.unlink\<close>.\<close>

definition unlink :: "path \<Rightarrow> unit prog" where
  "unlink p =
     (\<lambda>w. case fs w p of
            None \<Rightarrow> (Inl (os_exn FileNotFoundError ''No such file or directory'' p), w)
          | Some Dir \<Rightarrow> (Inl (os_exn PermissionError ''Operation not permitted'' p), w)
          | Some (File s) \<Rightarrow> (Inr (), w\<lparr>fs := (fs w)(p := None)\<rparr>))"

text \<open>\<^verbatim>\<open>shutil.rmtree(p)\<close>: the directory and everything below it.\<close>

definition rmtree :: "path \<Rightarrow> unit prog" where
  "rmtree p =
     (\<lambda>w. case fs w p of
            None \<Rightarrow> (Inl (os_exn FileNotFoundError ''No such file or directory'' p), w)
          | Some (File s) \<Rightarrow> (Inl (os_exn NotADirectoryError ''Not a directory'' p), w)
          | Some Dir \<Rightarrow> (Inr (), w\<lparr>fs := (\<lambda>q. if prefix p q then None else fs w q)\<rparr>))"

text \<open>\<^verbatim>\<open>p.mkdir(exist_ok=True)\<close>.\<close>

definition mkdir_exist_ok :: "path \<Rightarrow> unit prog" where
  "mkdir_exist_ok p =
     (\<lambda>w. case fs w p of
            Some Dir \<Rightarrow> (Inr (), w)
          | Some (File s) \<Rightarrow> (Inl (os_exn FileExistsError ''File exists'' p), w)
          | None \<Rightarrow>
              (case fs w (parent p) of
                 None \<Rightarrow> (Inl (os_exn FileNotFoundError ''No such file or directory'' p), w)
               | Some (File c) \<Rightarrow> (Inl (os_exn NotADirectoryError ''Not a directory'' p), w)
               | Some Dir \<Rightarrow> (Inr (), w\<lparr>fs := (fs w)(p \<mapsto> Dir)\<rparr>)))"

text \<open>\<^verbatim>\<open>p.mkdir(parents=True, exist_ok=True)\<close>: \<open>p\<close> and every missing ancestor.\<close>

definition is_file_at :: "filesys \<Rightarrow> path \<Rightarrow> bool" where
  "is_file_at f q = (case f q of Some (File s) \<Rightarrow> True | _ \<Rightarrow> False)"

definition mkdir_parents :: "path \<Rightarrow> unit prog" where
  "mkdir_parents p =
     (\<lambda>w. if is_file_at (fs w) p then (Inl (os_exn FileExistsError ''File exists'' p), w)
          else if list_ex (is_file_at (fs w)) (prefixes p)
          then (Inl (os_exn NotADirectoryError ''Not a directory'' p), w)
          else (Inr (), w\<lparr>fs := (\<lambda>q. if prefix q p then Some Dir else fs w q)\<rparr>))"

text \<open>\<^verbatim>\<open>shutil.copy2(src, dst)\<close>; into \<open>dst\<close> when that is a directory.\<close>

definition copy2 :: "path \<Rightarrow> path \<Rightarrow> unit prog" where
  "copy2 src dst =
     and_then (read_file src)
       (\<lambda>s. reading (\<lambda>w. if is_dir dst w then write_file (dst @ [path_name src]) s
                          else write_file dst s))"

text \<open>\<^verbatim>\<open>os.chmod(p, 0o755)\<close>; permissions are not part of the model.\<close>

definition chmod :: "path \<Rightarrow> unit prog" where
  "chmod p =
     (\<lambda>w. if fs w p = None
          then (Inl (os_exn FileNotFoundError ''No such file or directory'' p), w)
          else (Inr (), w))"

definition getcwd :: "path prog" where
  "getcwd =
     (\<lambda>w. if fs w (cwd w) = Some Dir then (Inr (cwd w), w)
          else (Inl (Exn FileNotFoundError ''No such file or directory''), w))"

definition chdir :: "path \<Rightarrow> unit prog" where
  "chdir p =
     (\<lambda>w. case fs w p of
            None \<Rightarrow> (Inl (os_exn FileNotFoundError ''No such file or directory'' p), w)
          | Some (File s) \<Rightarrow> (Inl (os_exn NotADirectoryError ''Not a directory'' p), w)
          | Some Dir \<Rightarrow> (Inr (), w\<lparr>cwd := p\<rparr>))"

subsection \<open>Child processes\<close>

text \<open>\<^verbatim>\<open>str(argv)\<close> for a list of strings, without the escapes of \<^verbatim>\<open>repr\<close>.\<close>

fun join :: "string \<Rightarrow> string list \<Rightarrow> string" where
  "join sep [] = []"
| "join sep [x] = x"
| "join sep (x # y # xs) = x @ sep @ join sep (y # xs)"

definition list_repr :: "string list \<Rightarrow> string" where
  "list_repr xs = ''['' @ join '', '' (map (\<lambda>x. [CHR 0x27] @ x @ [CHR 0x27]) xs) @ '']''"

definition os_error_exn :: "os_error \<Rightarrow> string list \<Rightarrow> exn" where
  "os_error_exn e argv =
     (case e of
        ENOENT \<Rightarrow> Exn FileNotFoundError (''[Errno 2] No such file or directory: '' @ list_repr (take 1 argv))
      | EACCES \<Rightarrow> Exn PermissionError (''[Errno 13] Permission denied: '' @ list_repr (take 1 argv))
      | Other_errno \<Rightarrow> Exn OSError (''OSError: '' @ list_repr (take 1 argv)))"

definition called_process_error :: "string list \<Rightarrow> int \<Rightarrow> exn" where
  "called_process_error argv rc =
     Exn CalledProcessError
       (''Command '' @ list_repr argv @ '' returned non-zero exit status '' @ str_int rc @ ''.'')"

text \<open>
  \<^verbatim>\<open>subprocess.run(argv, check=check)\<close>: the call is logged, the child's file system
  becomes the state's, and the result is (return code, stdout, stderr). Whether the output
  is captured changes nothing the script can observe but the two strings.
\<close>

definition subprocess_run :: "env \<Rightarrow> bool \<Rightarrow> string list \<Rightarrow> (int \<times> string \<times> string) prog" where
  "subprocess_run E check argv =
     (\<lambda>w. let w1 = w\<lparr>calls := calls w @ [Subprocess argv]\<rparr>
          in case proc E (length (calls w)) argv (cwd w) (fs w) of
               Not_started e \<Rightarrow> (Inl (os_error_exn e argv), w1)
             | Completed rc so se f \<Rightarrow>
                 if check \<and> rc \<noteq> 0 then (Inl (called_process_error argv rc), w1\<lparr>fs := f\<rparr>)
                 else (Inr (rc, so, se), w1\<lparr>fs := f\<rparr>))"

text \<open>A statement whose value is not used.\<close>

definition ignore :: "'a prog \<Rightarrow> unit prog" where
  "ignore m = and_then m (\<lambda>x. succeed ())"

subsection \<open>The paths of \<^verbatim>\<open>ReleaseManager.__init__\<close>\<close>

definition info_plist_path :: "env \<Rightarrow> path" where
  "info_plist_path E = root_dir E @ [''WinDock'', ''Info.plist'']"

definition build_dir :: "env \<Rightarrow> path" where
  "build_dir E = root_dir E @ [''build'']"

definition release_dir :: "env \<Rightarrow> path" where
  "release_dir E = build_dir E @ [''Build'', ''Products'', ''Release'']"

definition app_path :: "env \<Rightarrow> path" where
  "app_path E = release_dir E @ [''WinDock.app'']"

text \<open>\<^verbatim>\<open>self.root_dir / "homebrew-tap" / "Formula" / "windock.rb"\<close>, a local of four methods.\<close>

definition local_formula_path :: "env \<Rightarrow> path" where
  "local_formula_path E = root_dir E @ [''homebrew-tap'', ''Formula'', ''windock.rb'']"

text \<open>The state \<^verbatim>\<open>__init__\<close> leaves (\<^verbatim>\<open>main\<close> then sets \<^verbatim>\<open>dry_run\<close>).\<close>

definition init_manager :: "world \<Rightarrow> world" where
  "init_manager w =
     w\<lparr>current_version := None, new_version := None, tag_name := None,
       release_notes := None, dry_run := False, original_dir := None\<rparr>"

subsection \<open>\<^verbatim>\<open>get_current_version\<close> and \<^verbatim>\<open>calculate_new_version\<close>\<close>

definition get_current_version :: "env \<Rightarrow> unit prog" where
  "get_current_version E =
     try_except
       (and_then (read_file (info_plist_path E))
          (\<lambda>bytes.
             case plist_load E bytes of
               None \<Rightarrow> raise (Exn InvalidFileException ''Invalid file'')
             | Some plist_data \<Rightarrow>
                 (case plist_data ''CFBundleShortVersionString'' of
                    Some v \<Rightarrow>
                      block [modify (\<lambda>w. w\<lparr>current_version := Some v\<rparr>),
                             say (''Current version: '' @ pvalue_str v)]
                  | None \<Rightarrow>
                      block [modify (\<lambda>w. w\<lparr>current_version := Some (PStr ''1.0.0'')\<rparr>),
                             say ''No existing version found, defaulting to: 1.0.0''])))
       (\<lambda>e. raise (Exn RuntimeError (''Error reading Info.plist: '' @ exn_str e)))"

text \<open>\<^verbatim>\<open>xs[i]\<close>.\<close>

definition py_index :: "'a list \<Rightarrow> nat \<Rightarrow> exn + 'a" where
  "py_index xs i =
     (if i < length xs then Inr (xs ! i) else Inl (Exn IndexError ''list index out of range''))"

text \<open>\<^verbatim>\<open>self.current_version.split(".")\<close>: only a string has \<^verbatim>\<open>split\<close>.\<close>

definition version_parts :: "pvalue option \<Rightarrow> exn + string list" where
  "version_parts v =
     (case v of
        Some (PStr s) \<Rightarrow> Inr (py_split ''.'' s)
      | Some (POther s) \<Rightarrow> Inl (Exn AttributeError ''object has no attribute split'')
      | None \<Rightarrow> Inl (Exn AttributeError ''NoneType object has no attribute split''))"

text \<open>
  Lines 128 to 131: the three components read from \<^verbatim>\<open>self.current_version\<close>; a missing
  minor or patch component counts as 0, components after the third are not read.
\<close>

definition read_version :: "pvalue option \<Rightarrow> exn + int \<times> int \<times> int" where
  "read_version cur =
     (case version_parts cur of
        Inl e \<Rightarrow> Inl e
      | Inr parts \<Rightarrow>
          (case (case py_index parts 0 of Inl e \<Rightarrow> Inl e | Inr p \<Rightarrow> py_int p) of
             Inl e \<Rightarrow> Inl e
           | Inr major \<Rightarrow>
               (case (if length parts > 1 then py_int (parts ! 1) else Inr 0) of
                  Inl e \<Rightarrow> Inl e
                | Inr minor \<Rightarrow>
                    (case (if length parts > 2 then py_int (parts ! 2) else Inr 0) of
                       Inl e \<Rightarrow> Inl e
                     | Inr patch \<Rightarrow> Inr (major, minor, patch)))))"

text \<open>Lines 134 to 142: the \<^verbatim>\<open>if\<close>/\<^verbatim>\<open>elif\<close> chain; any other bump type changes nothing.\<close>

definition bump_version :: "string \<Rightarrow> int \<times> int \<times> int \<Rightarrow> int \<times> int \<times> int" where
  "bump_version version_type v =
     (case v of (major, minor, patch) \<Rightarrow>
        if version_type = ''major'' then (major + 1, 0, 0)
        else if version_type = ''minor'' then (major, minor + 1, 0)
        else if version_type = ''patch'' then (major, minor, patch + 1)
        else (major, minor, patch))"

text \<open>The f-string \<^verbatim>\<open>f"{major}.{minor}.{patch}"\<close>.\<close>

definition version_string :: "int \<times> int \<times> int \<Rightarrow> string" where
  "version_string v =
     (case v of (major, minor, patch) \<Rightarrow>
        str_int major @ ''.'' @ str_int minor @ ''.'' @ str_int patch)"

text \<open>An attribute inside an f-string: \<^verbatim>\<open>None\<close> prints as \<^verbatim>\<open>None\<close>.\<close>

definition str_opt :: "string option \<Rightarrow> string" where
  "str_opt v = (case v of None \<Rightarrow> ''None'' | Some s \<Rightarrow> s)"

definition calculate_new_version :: "string \<Rightarrow> unit prog" where
  "calculate_new_version version_type =
     try_except
       (reading (\<lambda>w0.
          and_then (lift (read_version (current_version w0)))
            (\<lambda>v. block [modify (\<lambda>w. w\<lparr>new_version := Some (version_string (bump_version version_type v))\<rparr>),
                        modify (\<lambda>w. w\<lparr>tag_name := Some (''v'' @ str_opt (new_version w))\<rparr>),
                        reading (\<lambda>w. say (''New version: '' @ str_opt (new_version w)))])))
       (\<lambda>e. raise (Exn RuntimeError (''Error calculating new version: '' @ exn_str e)))"

text \<open>
  The order of semantic versioning on (major, minor, patch), as the specification's data
  model has it; the script itself never compares versions.
\<close>

definition semver_less :: "int \<times> int \<times> int \<Rightarrow> int \<times> int \<times> int \<Rightarrow> bool" where
  "semver_less a b =
     (case a of (a1, a2, a3) \<Rightarrow> case b of (b1, b2, b3) \<Rightarrow>
        a1 < b1 \<or> (a1 = b1 \<and> (a2 < b2 \<or> (a2 = b2 \<and> a3 < b3))))"

subsection \<open>Regular expressions\<close>

text \<open>
  The script calls \<^verbatim>\<open>re.sub\<close> with three patterns. Two have the shape
  \<^verbatim>\<open>pre[\d\.]+post\<close> for literal texts \<open>pre\<close> and \<open>post\<close>, the third is a literal.
  \<open>match_at pre post s\<close> is the length of the match at the start of \<open>s\<close>: the class
  takes the longest run of digits and dots, and giving characters back cannot help, as
  \<open>post\<close> begins with a character outside the class in both patterns.
\<close>

definition is_digit_or_dot :: "char \<Rightarrow> bool" where
  "is_digit_or_dot c = (is_digit c \<or> c = CHR ''.'')"

definition match_at :: "string \<Rightarrow> string \<Rightarrow> string \<Rightarrow> nat option" where
  "match_at pre post s =
     (if prefix pre s then
        (let t = drop (length pre) s;
             ds = takeWhile is_digit_or_dot t
         in if ds \<noteq> [] \<and> prefix post (drop (length ds) t)
            then Some (length pre + length ds + length post) else None)
      else None)"

definition match_literal :: "string \<Rightarrow> string \<Rightarrow> nat option" where
  "match_literal lit s = (if prefix lit s then Some (length lit) else None)"

text \<open>
  \<^verbatim>\<open>re.sub\<close> scans from the left: where the pattern matches, the replacement (a function of
  the matched text) is written and the scan goes on behind the match; elsewhere one
  character is copied. None of the three patterns matches the empty string, so a match of
  length 0 is read as no match.
\<close>

function re_sub_with :: "(string \<Rightarrow> nat option) \<Rightarrow> (string \<Rightarrow> string) \<Rightarrow> string \<Rightarrow> string" where
  "re_sub_with m repl [] = []"
| "re_sub_with m repl (c # cs) =
     (case m (c # cs) of
        Some (Suc n) \<Rightarrow> repl (take (Suc n) (c # cs)) @ re_sub_with m repl (drop n cs)
      | _ \<Rightarrow> c # re_sub_with m repl cs)"
  by pat_completeness auto
termination
  by (relation "measure (\<lambda>(m, repl, s). length s)") auto

text \<open>
  The replacement string: without a backslash it stands for itself; with one,
  \<^verbatim>\<open>re\<close> parses it as a template before it searches, and raises on a bad escape.
\<close>

definition expand_template :: "env \<Rightarrow> string \<Rightarrow> exn + (string \<Rightarrow> string)" where
  "expand_template E repl =
     (if CHR 0x5C \<in> set repl then
        (case template E repl of
           None \<Rightarrow> Inl (Exn ReError (''bad escape in '' @ repl))
         | Some f \<Rightarrow> Inr f)
      else Inr (\<lambda>matched. repl))"

definition re_sub :: "env \<Rightarrow> (string \<Rightarrow> nat option) \<Rightarrow> string \<Rightarrow> string \<Rightarrow> exn + string" where
  "re_sub E m repl s =
     (case expand_template E repl of
        Inl e \<Rightarrow> Inl e
      | Inr f \<Rightarrow> Inr (re_sub_with m f s))"

text \<open>The three patterns.\<close>

definition version_pattern :: "string \<Rightarrow> nat option" where
  "version_pattern = match_at ''version \"'' ''\"''"

definition url_prefix :: string where
  "url_prefix = ''url \"https://github.com/barnuri/win-dock/releases/download/v''"

definition url_pattern :: "string \<Rightarrow> nat option" where
  "url_pattern = match_at url_prefix ''/WinDock.zip\"''"

definition no_check_pattern :: "string \<Rightarrow> nat option" where
  "no_check_pattern = match_literal ''sha256 :no_check''"

subsection \<open>\<^verbatim>\<open>update_version_in_plist\<close> and \<^verbatim>\<open>update_homebrew_formula_version\<close>\<close>

text \<open>Lines 190 to 197: the two substitutions, the second on the result of the first.\<close>

definition substitute_version :: "env \<Rightarrow> string option \<Rightarrow> string \<Rightarrow> exn + string" where
  "substitute_version E nv content =
     (case re_sub E version_pattern (''version \"'' @ str_opt nv @ ''\"'') content of
        Inl e \<Rightarrow> Inl e
      | Inr updated_content \<Rightarrow>
          re_sub E url_pattern (url_prefix @ str_opt nv @ ''/WinDock.zip\"'') updated_content)"

definition update_homebrew_formula_version :: "env \<Rightarrow> unit prog" where
  "update_homebrew_formula_version E =
     reading (\<lambda>w.
       if \<not> path_exists (local_formula_path E) w then
         say ''Warning: Homebrew formula file not found, skipping version update''
       else
         try_except
           (and_then (read_file (local_formula_path E)) (\<lambda>content.
            reading (\<lambda>w1.
              and_then (lift (substitute_version E (new_version w1) content)) (\<lambda>updated_content.
                block [write_file (local_formula_path E) updated_content,
                       say (''Updated Homebrew formula with version '' @ str_opt (new_version w1))]))))
           (\<lambda>e. block [say (''Warning: Error updating Homebrew formula: '' @ exn_str e),
                       say ''You may need to update the formula version manually.'']))"

definition update_version_in_plist :: "env \<Rightarrow> unit prog" where
  "update_version_in_plist E =
     reading (\<lambda>w.
       if dry_run w then
         say (''[DRY RUN] Would update Info.plist with version '' @ str_opt (new_version w))
       else
         try_except
           (and_then (read_file (info_plist_path E)) (\<lambda>bytes.
              case plist_load E bytes of
                None \<Rightarrow> raise (Exn InvalidFileException ''Invalid file'')
              | Some plist_data \<Rightarrow>
                  (let v = (case new_version w of Some s \<Rightarrow> PStr s | None \<Rightarrow> POther ''None'');
                       d = plist_data(''CFBundleShortVersionString'' \<mapsto> v, ''CFBundleVersion'' \<mapsto> v)
                   in block [write_file (info_plist_path E) (fst (plist_dump E d)),
                             (if snd (plist_dump E d) then succeed ()
                              else raise (Exn TypeError ''unsupported type'')),
                             say (''Updated Info.plist with version '' @ str_opt (new_version w)),
                             update_homebrew_formula_version E])))
           (\<lambda>e. raise (Exn RuntimeError (''Error updating Info.plist: '' @ exn_str e))))"

subsection \<open>\<^verbatim>\<open>cleanup_stale_resources\<close> and \<^verbatim>\<open>build_app\<close>\<close>

text \<open>Lines 81 to 87, for one of the two files.\<close>

definition remove_stale :: "path \<Rightarrow> unit prog" where
  "remove_stale file_path =
     reading (\<lambda>w.
       if path_exists file_path w then
         try_except
           (block [unlink file_path, say (''Removed existing '' @ path_name file_path)])
           (\<lambda>e. say (''Warning: Could not remove '' @ path_name file_path @ '': '' @ exn_str e))
       else succeed ())"

text \<open>Lines 94 to 104: the loop over the lines of \<^verbatim>\<open>mount\<close>'s output.\<close>

fun detach_volumes :: "env \<Rightarrow> string list \<Rightarrow> unit prog" where
  "detach_volumes E [] = succeed ()"
| "detach_volumes E (line # rest) =
     then_do
       (if contains ''WinDock'' line \<and> contains ''/Volumes/'' line then
          (let parts = py_split '' on '' line
           in if length parts > 1 then
                and_then (lift (py_index (py_split '' ('' (parts ! 1)) 0)) (\<lambda>volume_path.
                  try_except
                    (block [ignore (subprocess_run E False [''hdiutil'', ''detach'', volume_path]),
                            say (''Unmounted '' @ volume_path)])
                    (\<lambda>e. succeed ()))
              else succeed ())
        else succeed ())
       (detach_volumes E rest)"

definition cleanup_stale_resources :: "env \<Rightarrow> unit prog" where
  "cleanup_stale_resources E =
     block [say ''Cleaning up stale resources...'',
            remove_stale (root_dir E @ [''WinDock.dmg'']),
            remove_stale (root_dir E @ [''WinDock.zip'']),
            try_except
              (and_then (subprocess_run E False [''mount'']) (\<lambda>result.
                 case result of (returncode, stdout, stderr) \<Rightarrow>
                   if returncode = 0 then detach_volumes E (splitlines stdout) else succeed ()))
              (\<lambda>e. succeed ())]"

definition build_script :: "env \<Rightarrow> path" where
  "build_script E = root_dir E @ [''build.sh'']"

definition build_app :: "env \<Rightarrow> unit prog" where
  "build_app E =
     block [say ''Building WinDock...'',
            try_except
              (block [chmod (build_script E),
                      ignore (subprocess_run E True [path_str (build_script E)]),
                      reading (\<lambda>w.
                        if \<not> path_exists (app_path E) w then
                          raise (Exn RuntimeError
                                   (''Build failed - WinDock.app not found at '' @ path_str (app_path E)))
                        else succeed ()),
                      say ''Build successful'',
                      say (''Contents of '' @ path_str (release_dir E) @ '':''),
                      reading (\<lambda>w.
                        case listing E (fs w) (release_dir E) of (printed, failure) \<Rightarrow>
                          then_do (block (map say printed))
                            (case failure of None \<Rightarrow> succeed () | Some msg \<Rightarrow> raise (Exn OSError msg)))])
              (\<lambda>e. if exn_class_of e = CalledProcessError
                    then raise (Exn RuntimeError (''Build failed: '' @ exn_str e))
                    else raise (Exn RuntimeError (''Error during build process: '' @ exn_str e)))]"

subsection \<open>Git: \<^verbatim>\<open>commit_version_bump\<close> and \<^verbatim>\<open>create_tag\<close>\<close>

text \<open>\<^verbatim>\<open>try: m  except (C1, C2, ...) as e: h e\<close>: other exceptions pass through.\<close>

definition try_except_on :: "exn_class list \<Rightarrow> 'a prog \<Rightarrow> (exn \<Rightarrow> 'a prog) \<Rightarrow> 'a prog" where
  "try_except_on classes m h =
     (\<lambda>w. case m w of
            (Inl e, w') \<Rightarrow> if exn_class_of e \<in> set classes then h e w' else (Inl e, w')
          | (Inr x, w') \<Rightarrow> (Inr x, w'))"

definition quoted :: "string \<Rightarrow> string" where
  "quoted s = [CHR 0x27] @ s @ [CHR 0x27]"

text \<open>The GitPython calls: logged like child processes, and answered by the environment.\<close>

definition git_call :: "env \<Rightarrow> git_op \<Rightarrow> unit prog" where
  "git_call E op =
     (\<lambda>w. let w1 = w\<lparr>calls := calls w @ [GitPython op]\<rparr>
          in case git_do E (length (calls w)) op (fs w) of
               Inl msg \<Rightarrow> (Inl (Exn GitError msg), w1)
             | Inr f \<Rightarrow> (Inr (), w1\<lparr>fs := f\<rparr>))"

definition git_push_call :: "env \<Rightarrow> string option \<Rightarrow> bool list prog" where
  "git_push_call E refspec =
     (\<lambda>w. let w1 = w\<lparr>calls := calls w @ [GitPython (Push refspec)]\<rparr>
          in case git_push E (length (calls w)) refspec (fs w) of
               Inl msg \<Rightarrow> (Inl (Exn GitError msg), w1)
             | Inr (push_info, f) \<Rightarrow> (Inr push_info, w1\<lparr>fs := f\<rparr>))"

definition git_list_call :: "env \<Rightarrow> git_op \<Rightarrow> string list prog" where
  "git_list_call E op =
     (\<lambda>w. let w1 = w\<lparr>calls := calls w @ [GitPython op]\<rparr>
          in case git_list E (length (calls w)) op (fs w) of
               Inl msg \<Rightarrow> (Inl (Exn GitError msg), w1)
             | Inr names \<Rightarrow> (Inr names, w1))"

text \<open>\<^verbatim>\<open>self.tag_name\<close>: the attribute exists only once \<^verbatim>\<open>calculate_new_version\<close> has set it.\<close>

definition get_tag_name :: "string prog" where
  "get_tag_name =
     reading (\<lambda>w. case tag_name w of
                    None \<Rightarrow> raise (Exn AttributeError ''ReleaseManager object has no attribute tag_name'')
                  | Some t \<Rightarrow> succeed t)"

text \<open>Lines 377 to 379: the files are staged and committed.\<close>

definition stage_and_commit :: "env \<Rightarrow> string list \<Rightarrow> unit prog" where
  "stage_and_commit E files_to_commit =
     block [block (map (\<lambda>file_path. ignore (subprocess_run E True [''git'', ''add'', file_path]))
                     files_to_commit),
            reading (\<lambda>w. ignore (subprocess_run E True
               [''git'', ''commit'', ''-m'', ''Bump version to '' @ str_opt (new_version w)]))]"

text \<open>Lines 382 to 387: the push, whose return code is only looked at.\<close>

definition push_and_report :: "env \<Rightarrow> unit prog" where
  "push_and_report E =
     and_then (subprocess_run E False [''git'', ''push'']) (\<lambda>push_result.
       case push_result of (returncode, stdout, stderr) \<Rightarrow>
         if returncode \<noteq> 0 then
           block [say (''Warning: Could not push version bump commit: '' @ stderr),
                  say (''You may need to push manually with '' @ quoted ''git push'')]
         else say ''Changes committed and pushed successfully'')"

definition git_commit_via_subprocess :: "env \<Rightarrow> string list \<Rightarrow> unit prog" where
  "git_commit_via_subprocess E files_to_commit =
     try_except_on [CalledProcessError]
       (block [stage_and_commit E files_to_commit, push_and_report E])
       (\<lambda>e. block [say (''Warning: Git operations failed: '' @ exn_str e),
                   say ''Continuing with release process, but you may need to commit and push manually.''])"

text \<open>Lines 332 to 337: the files of the commit.\<close>

definition files_to_commit :: "env \<Rightarrow> world \<Rightarrow> string list" where
  "files_to_commit E w =
     [path_str (info_plist_path E)]
     @ (if path_exists (local_formula_path E) w then [path_str (local_formula_path E)] else [])"

definition commit_version_bump :: "env \<Rightarrow> unit prog" where
  "commit_version_bump E =
     block [say ''Committing version bump...'',
       reading (\<lambda>w.
         if dry_run w then
           say (''[DRY RUN] Would commit and push version bump to '' @ str_opt (new_version w))
         else
           (let files_to_commit = files_to_commit E w
            in if have_gitpython E then
                 try_except
                   (block [git_call E (Repo (root_dir E)),
                           block (map (\<lambda>file_path. git_call E (Git_add file_path)) files_to_commit),
                           git_call E (Index_commit (''Bump version to '' @ str_opt (new_version w))),
                           git_call E (Remote ''origin''),
                           and_then (git_push_call E None) (\<lambda>push_info.
                           and_then (lift (py_index push_info 0)) (\<lambda>error_flag.
                             if \<not> error_flag then say ''Changes committed and pushed successfully''
                             else block [say ''Warning: Could not push version bump commit'',
                                         say (''You may need to push manually with '' @ quoted ''git push'')]))])
                   (\<lambda>e. block [say (''Warning: Git operations with GitPython failed: '' @ exn_str e),
                               say ''Falling back to subprocess for git operations'',
                               git_commit_via_subprocess E files_to_commit])
               else git_commit_via_subprocess E files_to_commit))]"

definition git_tag_via_subprocess :: "env \<Rightarrow> unit prog" where
  "git_tag_via_subprocess E =
     try_except_on [CalledProcessError]
       (and_then get_tag_name (\<lambda>tag.
          block [ignore (subprocess_run E True [''git'', ''tag'', tag]),
                 and_then (subprocess_run E False [''git'', ''push'', ''origin'', tag]) (\<lambda>push_result.
                   case push_result of (returncode, stdout, stderr) \<Rightarrow>
                     if returncode \<noteq> 0 then
                       block [say (''Warning: Could not push tag: '' @ stderr),
                              say (''You may need to push the tag manually with ''
                                   @ quoted (''git push origin '' @ tag))]
                     else say (''Tag '' @ tag @ '' created and pushed successfully''))]))
       (\<lambda>e. block [say (''Warning: Creating tag failed: '' @ exn_str e),
                   say ''Continuing with release process, but you may need to create and push the tag manually.''])"

definition create_tag :: "env \<Rightarrow> unit prog" where
  "create_tag E =
     and_then get_tag_name (\<lambda>tag.
       block [say (''Creating release tag: '' @ tag),
         reading (\<lambda>w.
           if dry_run w then say (''[DRY RUN] Would create and push tag '' @ tag)
           else if have_gitpython E then
             try_except
               (block [git_call E (Repo (root_dir E)),
                       git_call E (Create_tag tag (''Version '' @ str_opt (new_version w))),
                       git_call E (Remote ''origin''),
                       and_then (git_push_call E (Some tag)) (\<lambda>push_info.
                       and_then (lift (py_index push_info 0)) (\<lambda>error_flag.
                         if \<not> error_flag then say (''Tag '' @ tag @ '' created and pushed successfully'')
                         else block [say (''Warning: Could not push tag '' @ tag),
                                     say (''You may need to push the tag manually with ''
                                          @ quoted (''git push origin '' @ tag))]))])
               (\<lambda>e. block [say (''Warning: Git tag operations with GitPython failed: '' @ exn_str e),
                           say ''Falling back to subprocess for git tag operations'',
                           git_tag_via_subprocess E])
           else git_tag_via_subprocess E)])"

subsection \<open>\<^verbatim>\<open>generate_release_notes\<close>\<close>

definition newline :: string where
  "newline = [CHR 0x0A]"

text \<open>The f-string of lines 488 to 498.\<close>

definition installation_section :: string where
  "installation_section =
     ''## Installation'' @ newline @ newline
     @ ''1. Download `WinDock.dmg`'' @ newline
     @ ''2. Open the DMG file'' @ newline
     @ ''3. Drag `WinDock.app` to the Applications folder'' @ newline
     @ ''4. Run the app from Applications'' @ newline"

definition notes_text :: "string \<Rightarrow> string" where
  "notes_text commits =
     ''## What'' @ [CHR 0x27] @ ''s Changed'' @ newline @ newline
     @ commits @ newline @ newline @ installation_section"

text \<open>Line 508: the notes of the \<^verbatim>\<open>except\<close> branch.\<close>

definition basic_notes :: "env \<Rightarrow> string option \<Rightarrow> string" where
  "basic_notes E nv = ''## WinDock '' @ str_opt nv @ newline @ newline @ ''Released on '' @ today E"

definition release_notes_path :: "env \<Rightarrow> path" where
  "release_notes_path E = root_dir E @ [''release_notes.md'']"

definition bullet_lines :: "string list \<Rightarrow> string" where
  "bullet_lines summaries = join newline (map (\<lambda>summary. ''- '' @ summary) summaries)"

text \<open>Lines 448 to 485: the commits, through GitPython or through \<^verbatim>\<open>git\<close>.\<close>

definition collect_commits :: "env \<Rightarrow> string prog" where
  "collect_commits E =
     (if have_gitpython E then
        then_do (git_call E (Repo (root_dir E)))
          (and_then (git_list_call E Tags) (\<lambda>tags.
             case tags of
               last_tag # others \<Rightarrow>
                 if last_tag \<noteq> [] then
                   and_then (git_list_call E (Iter_commits (Some (last_tag @ ''..HEAD^''))))
                     (\<lambda>summaries. succeed (bullet_lines summaries))
                 else
                   and_then (git_list_call E (Iter_commits None))
                     (\<lambda>summaries. succeed (bullet_lines summaries))
             | [] \<Rightarrow>
                 and_then (git_list_call E (Iter_commits None))
                   (\<lambda>summaries. succeed (bullet_lines summaries))))
      else
        and_then (subprocess_run E False [''git'', ''describe'', ''--tags'', ''--abbrev=0'', ''HEAD^''])
          (\<lambda>get_last_tag.
             case get_last_tag of (returncode, stdout, stderr) \<Rightarrow>
               (let commits_cmd =
                      (if returncode = 0
                       then [''git'', ''log'', ''--oneline'', ''--pretty=format:- %s'',
                             py_strip stdout @ ''..HEAD^'']
                       else [''git'', ''log'', ''--oneline'', ''--pretty=format:- %s'', ''HEAD''])
                in and_then (subprocess_run E True commits_cmd)
                     (\<lambda>log_result. case log_result of (rc, out_text, err_text) \<Rightarrow> succeed out_text))))"

definition generate_release_notes :: "env \<Rightarrow> unit prog" where
  "generate_release_notes E =
     block [say ''Generating release notes...'',
       try_except_on [CalledProcessError]
         (and_then (collect_commits E) (\<lambda>commits.
            block [modify (\<lambda>w. w\<lparr>release_notes := Some (notes_text commits)\<rparr>),
                   write_file (release_notes_path E) (notes_text commits),
                   say ''Generated release notes'']))
         (\<lambda>e. block [say (''Warning: Error generating release notes: '' @ exn_str e),
                     modify (\<lambda>w. w\<lparr>release_notes := Some (basic_notes E (new_version w))\<rparr>),
                     say ''Using basic release notes instead.''])]"

subsection \<open>\<^verbatim>\<open>create_github_release\<close>\<close>

definition dmg_file :: "env \<Rightarrow> path" where
  "dmg_file E = root_dir E @ [''WinDock.dmg'']"

definition app_zip_file :: "env \<Rightarrow> path" where
  "app_zip_file E = root_dir E @ [''WinDock.zip'']"

text \<open>Lines 530 to 534: is the GitHub CLI there?\<close>

definition has_gh_cli :: "env \<Rightarrow> bool prog" where
  "has_gh_cli E =
     try_except_on [CalledProcessError, FileNotFoundError]
       (then_do (subprocess_run E True [''gh'', ''--version'']) (succeed True))
       (\<lambda>e. succeed False)"

text \<open>
  \<^verbatim>\<open>shutil.make_archive\<close> of \<^verbatim>\<open>WinDock.app\<close> under the release directory: the base
  name is the path of \<^verbatim>\<open>WinDock.zip\<close> without its last four characters, so the archive
  is written to \<^verbatim>\<open>WinDock.zip\<close> in the root directory.
\<close>

definition make_archive :: "env \<Rightarrow> unit prog" where
  "make_archive E =
     reading (\<lambda>w. case zip_of E (fs w) (release_dir E) ''WinDock.app'' of
                    Inl msg \<Rightarrow> raise (Exn OSError msg)
                  | Inr bytes \<Rightarrow> write_file (app_zip_file E) bytes)"

text \<open>Lines 542 to 563.\<close>

definition package_assets :: "env \<Rightarrow> unit prog" where
  "package_assets E =
     block [reading (\<lambda>w.
              if path_exists (app_path E) w then
                block [say ''Creating ZIP archive of WinDock.app...'',
                       try_except
                         (block [make_archive E,
                                 say (''Created ZIP archive: '' @ path_str (app_zip_file E))])
                         (\<lambda>e. say (''Warning: Failed to create ZIP archive: '' @ exn_str e))]
              else say (''Warning: App bundle not found at '' @ path_str (app_path E))),
            reading (\<lambda>w.
              if \<not> path_exists (dmg_file E) w
              then say (''Warning: DMG file not found at '' @ path_str (dmg_file E))
              else succeed ())]"

text \<open>Lines 571 to 641, when the GitHub CLI is there.\<close>

definition gh_release :: "env \<Rightarrow> unit prog" where
  "gh_release E =
     try_except_on [CalledProcessError]
       (and_then get_tag_name (\<lambda>tag.
        reading (\<lambda>w0.
          (let release_name = ''WinDock '' @ str_opt (new_version w0);
               body_path = path_str (release_notes_path E)
           in block [
                and_then (subprocess_run E False [''gh'', ''release'', ''view'', tag]) (\<lambda>check_release.
                  case check_release of (returncode, stdout, stderr) \<Rightarrow>
                    if returncode = 0 then
                      block [say (''Release '' @ tag @ '' already exists, updating...''),
                             ignore (subprocess_run E True
                               [''gh'', ''release'', ''edit'', tag, ''--title'', release_name,
                                ''--notes-file'', body_path])]
                    else
                      block [say (''Creating new release '' @ tag @ ''...''),
                             reading (\<lambda>w. ignore (subprocess_run E True
                               ([''gh'', ''release'', ''create'', tag, ''--title'', release_name,
                                 ''--notes-file'', body_path]
                                @ (if path_exists (dmg_file E) w then [path_str (dmg_file E)] else [])
                                @ (if path_exists (app_zip_file E) w then [path_str (app_zip_file E)] else []))))]),
                reading (\<lambda>w.
                  if path_exists (dmg_file E) w then
                    block [say (''Uploading '' @ path_name (dmg_file E) @ '' to release '' @ tag @ ''...''),
                           ignore (subprocess_run E False
                             [''gh'', ''release'', ''upload'', tag, path_str (dmg_file E), ''--clobber''])]
                  else succeed ()),
                reading (\<lambda>w.
                  if path_exists (app_zip_file E) w then
                    block [say (''Uploading '' @ path_name (app_zip_file E) @ '' to release '' @ tag @ ''...''),
                           ignore (subprocess_run E False
                             [''gh'', ''release'', ''upload'', tag, path_str (app_zip_file E), ''--clobber''])]
                  else succeed ()),
                say ''GitHub release created/updated successfully'']))))
       (\<lambda>e. block [say (''Warning: GitHub release creation failed: '' @ exn_str e),
                   say ''You may need to create the release manually through the GitHub web interface.''])"

definition create_github_release :: "env \<Rightarrow> unit prog" where
  "create_github_release E =
     block [say ''Creating GitHub release...'',
       reading (\<lambda>w.
         if dry_run w then
           and_then get_tag_name (\<lambda>tag. say (''[DRY RUN] Would create GitHub release for tag '' @ tag))
         else
           and_then (has_gh_cli E) (\<lambda>gh.
             if \<not> (gh \<or> have_pygithub E) then
               block [say ''Neither GitHub CLI (gh) nor PyGithub found. Skipping GitHub release creation.'',
                      say ''To create the release manually, go to the repository's releases page'',
                      and_then get_tag_name (\<lambda>tag.
                        say (''and create a new release with tag '' @ quoted tag @ ''.''))]
             else
               block [package_assets E,
                      (if gh then gh_release E else succeed ())]))]"

subsection \<open>\<^verbatim>\<open>update_formula_checksum\<close> and \<^verbatim>\<open>submit_to_homebrew\<close>\<close>

definition scratch_zip :: path where
  "scratch_zip = [''tmp'', ''WinDock.zip'']"

definition zip_url :: "string option \<Rightarrow> string" where
  "zip_url nv = ''https://github.com/barnuri/win-dock/releases/download/v'' @ str_opt nv @ ''/WinDock.zip''"

definition update_formula_checksum :: "env \<Rightarrow> path \<Rightarrow> unit prog" where
  "update_formula_checksum E formula_path =
     try_except
       (reading (\<lambda>w0.
          block [say (''Downloading '' @ zip_url (new_version w0) @ '' to calculate checksum...''),
            and_then (subprocess_run E False
                        [''curl'', ''-L'', ''-o'', ''/tmp/WinDock.zip'', zip_url (new_version w0)])
              (\<lambda>download_result.
                 case download_result of (returncode, stdout, stderr) \<Rightarrow>
                   if returncode \<noteq> 0 then say ''Could not download ZIP file for checksum calculation''
                   else
                     and_then (subprocess_run E True [''shasum'', ''-a'', ''256'', ''/tmp/WinDock.zip''])
                       (\<lambda>checksum_result.
                          case checksum_result of (rc, checksum_out, checksum_err) \<Rightarrow>
                            and_then (lift (case first_token checksum_out of
                                              None \<Rightarrow> Inl (Exn IndexError ''list index out of range'')
                                            | Some t \<Rightarrow> Inr t))
                              (\<lambda>sha256.
                                 block [say (''Calculated SHA256: '' @ sha256),
                                   and_then (read_file formula_path) (\<lambda>content.
                                   and_then (lift (re_sub E no_check_pattern
                                                     (''sha256 \"'' @ sha256 @ ''\"'') content))
                                     (\<lambda>updated_content.
                                        block [write_file formula_path updated_content,
                                               say ''Updated formula with calculated checksum'',
                                               try_except (unlink scratch_zip) (\<lambda>e. succeed ())]))])))]))
       (\<lambda>e. if exn_class_of e = CalledProcessError
             then block [say (''Error calculating checksum: '' @ exn_str e),
                         say ''Using :no_check for SHA256'']
             else say (''Error updating checksum: '' @ exn_str e))"

definition homebrew_tap_dir :: "env \<Rightarrow> path" where
  "homebrew_tap_dir E = parent (root_dir E) @ [''homebrew-windock-temp'']"

definition readme_content :: string where
  "readme_content =
     ''# Homebrew Tap for WinDock'' @ newline @ newline
     @ ''This is the official Homebrew tap for WinDock.'' @ newline @ newline
     @ ''## Installation'' @ newline @ newline
     @ ''```bash'' @ newline
     @ ''brew tap barnuri/brew'' @ newline
     @ ''brew install windock --no-quarantine'' @ newline
     @ ''```'' @ newline"

text \<open>\<^verbatim>\<open>original_dir = os.getcwd()\<close>.\<close>

definition bind_original_dir :: "unit prog" where
  "bind_original_dir = and_then getcwd (\<lambda>d. modify (\<lambda>w. w\<lparr>original_dir := Some d\<rparr>))"

text \<open>\<^verbatim>\<open>os.chdir(original_dir)\<close>: reading a local that was never bound raises.\<close>

definition chdir_original_dir :: "unit prog" where
  "chdir_original_dir =
     reading (\<lambda>w. case original_dir w of
                    None \<Rightarrow> raise (Exn UnboundLocalError
                               ''cannot access local variable original_dir where it is not associated with a value'')
                  | Some d \<Rightarrow> chdir d)"

text \<open>Lines 658 to 722: the tap repository is reset, cloned or created.\<close>

definition prepare_tap :: "env \<Rightarrow> unit prog" where
  "prepare_tap E =
     reading (\<lambda>w.
       if path_exists (homebrew_tap_dir E) w \<and> path_exists (homebrew_tap_dir E @ [''.git'']) w then
         block [say ''Resetting existing homebrew tap repository...'',
                bind_original_dir,
                chdir (homebrew_tap_dir E),
                ignore (subprocess_run E True [''git'', ''reset'', ''--hard'', ''HEAD'']),
                ignore (subprocess_run E True [''git'', ''clean'', ''-fd'']),
                ignore (subprocess_run E False [''git'', ''checkout'', ''master'']),
                ignore (subprocess_run E True [''git'', ''pull'', ''origin'', ''master'']),
                chdir_original_dir]
       else
         block [(if path_exists (homebrew_tap_dir E) w then rmtree (homebrew_tap_dir E) else succeed ()),
                say ''Setting up homebrew tap repository...'',
                try_except_on [CalledProcessError]
                  (ignore (subprocess_run E True
                     [''git'', ''clone'', ''https://github.com/barnuri/homebrew-brew'',
                      path_str (homebrew_tap_dir E)]))
                  (\<lambda>e. block [say ''Creating new homebrew tap repository...'',
                              mkdir_parents (homebrew_tap_dir E),
                              bind_original_dir,
                              chdir (homebrew_tap_dir E),
                              ignore (subprocess_run E True [''git'', ''init'']),
                              ignore (subprocess_run E True [''git'', ''branch'', ''-M'', ''master'']),
                              mkdir_exist_ok (homebrew_tap_dir E @ [''Formula'']),
                              write_file (homebrew_tap_dir E @ [''README.md'']) readme_content,
                              ignore (subprocess_run E True [''git'', ''add'', ''README.md'']),
                              ignore (subprocess_run E True [''git'', ''commit'', ''-m'', ''Initial commit'']),
                              chdir_original_dir])])"

text \<open>Lines 724 to 764: the formula is copied into the tap, committed and pushed.\<close>

definition publish_formula :: "env \<Rightarrow> unit prog" where
  "publish_formula E =
     (let formula_dir = homebrew_tap_dir E @ [''Formula''];
          formula_path = formula_dir @ [''windock.rb'']
      in block [bind_original_dir,
                chdir (homebrew_tap_dir E),
                mkdir_exist_ok formula_dir,
                reading (\<lambda>w.
                  if \<not> path_exists (local_formula_path E) w then
                    say (''Warning: Local formula file not found at '' @ path_str (local_formula_path E))
                  else
                    block [copy2 (local_formula_path E) formula_path,
                           say (''Copied formula to '' @ path_str formula_path),
                           update_formula_checksum E formula_path,
                           ignore (subprocess_run E True [''git'', ''add'', path_str formula_path]),
                           and_then (subprocess_run E False
                                       [''git'', ''status'', ''--porcelain'', path_str formula_path])
                             (\<lambda>status_result.
                                case status_result of (returncode, stdout, stderr) \<Rightarrow>
                                  reading (\<lambda>w1.
                                    (let is_new_formula = prefix ''A'' (py_strip stdout);
                                         commit_message =
                                           (if is_new_formula
                                            then ''windock '' @ str_opt (new_version w1) @ '' (new formula)''
                                            else ''windock '' @ str_opt (new_version w1))
                                     in ignore (subprocess_run E True
                                                  [''git'', ''commit'', ''-m'', commit_message])))),
                           ignore (subprocess_run E True [''gh'', ''--version'']),
                           ignore (subprocess_run E True [''git'', ''push'', ''-u'', ''origin'', ''master''])])])"

definition submit_to_homebrew :: "env \<Rightarrow> unit prog" where
  "submit_to_homebrew E =
     block [say ''Submitting formula to Homebrew tap...'',
       reading (\<lambda>w.
         if dry_run w then say ''[DRY RUN] Would submit formula to Homebrew tap''
         else
           then_do (modify (\<lambda>w. w\<lparr>original_dir := None\<rparr>))
             (try_finally
                (try_except
                   (block [prepare_tap E, publish_formula E])
                   (\<lambda>e. block [say (''Warning: Homebrew tap submission failed: '' @ exn_str e),
                               say ''You may need to update the formula manually in the tap repository.'']))
                chdir_original_dir))]"

subsection \<open>\<^verbatim>\<open>cleanup\<close>, \<^verbatim>\<open>run\<close> and \<^verbatim>\<open>main\<close>\<close>

definition cleanup :: "env \<Rightarrow> unit prog" where
  "cleanup E =
     block [say ''Cleaning up...'',
            reading (\<lambda>w.
              if path_exists (release_notes_path E) w then
                (if is_dir (release_notes_path E) w then rmtree (release_notes_path E)
                 else unlink (release_notes_path E))
              else succeed ()),
            say ''Cleanup completed'']"

text \<open>The statements of \<^verbatim>\<open>run\<close> (lines 51 to 71), in order.\<close>

definition run_steps :: "env \<Rightarrow> string \<Rightarrow> unit prog list" where
  "run_steps E version_type =
     [say (''Starting WinDock release process ('' @ version_type @ '')...''),
      cleanup_stale_resources E,
      get_current_version E,
      calculate_new_version version_type,
      update_version_in_plist E,
      build_app E,
      commit_version_bump E,
      create_tag E,
      generate_release_notes E,
      create_github_release E,
      submit_to_homebrew E,
      cleanup E,
      reading (\<lambda>w. say (''Release process completed successfully! Version ''
                         @ str_opt (new_version w) @ '' released.'')),
      say ''If Homebrew tap submission was successful, the formula will be available in your tap.'']"

definition run :: "env \<Rightarrow> string \<Rightarrow> unit prog" where
  "run E version_type = block (run_steps E version_type)"

text \<open>
  \<^verbatim>\<open>main\<close>, after \<^verbatim>\<open>argparse\<close> has read the command line: \<open>version_type\<close> is the
  positional argument (one of \<^verbatim>\<open>major\<close>, \<^verbatim>\<open>minor\<close>, \<^verbatim>\<open>patch\<close>; \<^verbatim>\<open>argparse\<close> refuses
  anything else before \<^verbatim>\<open>main\<close> goes on) and \<open>dry\<close> is the flag \<^verbatim>\<open>--dry-run\<close>.
\<close>

definition main :: "env \<Rightarrow> string \<Rightarrow> bool \<Rightarrow> unit prog" where
  "main E version_type dry =
     block [(if dry then say ''DRY RUN MODE: No changes will be committed or pushed'' else succeed ()),
            modify init_manager,
            modify (\<lambda>w. w\<lparr>dry_run := dry\<rparr>),
            try_except
              (block [run E version_type,
                      say ''Release script completed successfully!'',
                      and_then get_tag_name (\<lambda>tag.
                        say (''https://github.com/barnuri/win-dock/releases/tag/'' @ tag))])
              (\<lambda>e. block [say (''Error during release process: '' @ exn_str e),
                          say ''Reverting Info.plist to the original version...'',
                          ignore (subprocess_run E True
                                    [''git'', ''restore'', path_str (info_plist_path E)])])]"

text \<open>
  The exit status of the process: \<^verbatim>\<open>main()\<close> is the last statement of the script, so the
  status is 0 when it returns and 1 when an exception leaves it.
\<close>

definition exit_status :: "(exn + unit) \<times> world \<Rightarrow> nat" where
  "exit_status r = (case fst r of Inr u \<Rightarrow> 0 | Inl e \<Rightarrow> 1)"

text \<open>
  The state in which \<^verbatim>\<open>main\<close> calls \<^verbatim>\<open>run\<close>: the notice of a dry run is printed,
  the manager is constructed and its \<^verbatim>\<open>dry_run\<close> attribute is set.
\<close>

definition main_start :: "bool \<Rightarrow> world \<Rightarrow> world" where
  "main_start dry w =
     (init_manager (if dry then w\<lparr>out := out w @ [''DRY RUN MODE: No changes will be committed or pushed'']\<rparr>
                    else w))\<lparr>dry_run := dry\<rparr>"

subsection \<open>A concrete machine\<close>

text \<open>
  A small machine on which the script can be run: the checkout is \<^verbatim>\<open>/src/win-dock\<close>,
  the metadata file holds the version as plain text, and the formula names version 1.2.3
  with the no-check sentinel. \<open>files\<close> are further files of the root directory.
\<close>

definition demo_root :: path where
  "demo_root = [''src'', ''win-dock'']"

definition demo_fs :: "(string \<times> string) list \<Rightarrow> filesys" where
  "demo_fs files =
     (\<lambda>p. if p \<in> set [[], [''src''], [''tmp''], demo_root, demo_root @ [''WinDock''],
                        demo_root @ [''homebrew-tap''], demo_root @ [''homebrew-tap'', ''Formula'']]
          then Some Dir
          else if p = demo_root @ [''WinDock'', ''Info.plist''] then Some (File ''1.2.3'')
          else if p = demo_root @ [''homebrew-tap'', ''Formula'', ''windock.rb'']
          then Some (File (''version \"1.2.3\"'' @ newline @ ''sha256 :no_check'' @ newline))
          else case p of
                 [a, b, name] \<Rightarrow>
                   if [a, b] = demo_root then map_option File (map_of files name) else None
               | _ \<Rightarrow> None)"

text \<open>
  The child processes of the machine. A command whose words begin with an entry of
  \<open>failing\<close> exits with status 1; a program named in \<open>missing\<close> cannot be started. The
  build script creates the application bundle, \<^verbatim>\<open>git clone\<close> the tap repository,
  \<^verbatim>\<open>curl\<close> the scratch file, and \<^verbatim>\<open>shasum\<close> prints a digest.
\<close>

definition demo_digest :: string where
  "demo_digest = ''e3b0c44298fc1c149afbf4c8996fb92427ae41e4649b934ca495991b7852b855''"

definition demo_proc ::
  "string list list \<Rightarrow> string list \<Rightarrow> nat \<Rightarrow> string list \<Rightarrow> path \<Rightarrow> filesys \<Rightarrow> proc_outcome" where
  "demo_proc failing missing n argv d f =
     (if list_ex (\<lambda>tool. take 1 argv = [tool]) missing then Not_started ENOENT
      else if list_ex (\<lambda>words. prefix words argv) failing then Completed 1 [] ''failed'' f
      else if argv = [''/src/win-dock/build.sh''] then
        Completed 0 [] []
          (f(demo_root @ [''build''] \<mapsto> Dir,
             demo_root @ [''build'', ''Build''] \<mapsto> Dir,
             demo_root @ [''build'', ''Build'', ''Products''] \<mapsto> Dir,
             demo_root @ [''build'', ''Build'', ''Products'', ''Release''] \<mapsto> Dir,
             demo_root @ [''build'', ''Build'', ''Products'', ''Release'', ''WinDock.app''] \<mapsto> Dir))
      else if take 2 argv = [''git'', ''clone''] then
        Completed 0 [] []
          (f([''src'', ''homebrew-windock-temp''] \<mapsto> Dir,
             [''src'', ''homebrew-windock-temp'', ''.git''] \<mapsto> Dir))
      else if take 1 argv = [''curl''] then Completed 0 [] [] (f([''tmp'', ''WinDock.zip''] \<mapsto> File ''PK''))
      else if take 1 argv = [''shasum''] then
        Completed 0 (demo_digest @ ''  /tmp/WinDock.zip'' @ newline) [] f
      else if take 2 argv = [''git'', ''log''] then Completed 0 ''- first commit'' [] f
      else if take 2 argv = [''git'', ''describe''] then Completed 128 [] ''fatal: No names found'' f
      else Completed 0 [] [] f)"

definition demo_env :: "string list list \<Rightarrow> string list \<Rightarrow> env" where
  "demo_env failing missing =
     \<lparr>root_dir = demo_root, have_gitpython = False, have_pygithub = False,
      proc = demo_proc failing missing,
      git_do = (\<lambda>n op f. Inl ''not a git repository''),
      git_push = (\<lambda>n refspec f. Inl ''not a git repository''),
      git_list = (\<lambda>n op f. Inl ''not a git repository''),
      plist_load = (\<lambda>s. Some (\<lambda>k. if k = ''CFBundleShortVersionString'' then Some (PStr s) else None)),
      plist_dump = (\<lambda>d. case d ''CFBundleShortVersionString'' of
                           Some (PStr s) \<Rightarrow> (s, True)
                         | _ \<Rightarrow> ([], False)),
      zip_of = (\<lambda>f d b. Inr ''PK''),
      listing = (\<lambda>f d. ([''d       4096 Jan 01 00:00 WinDock.app''], None)),
      template = (\<lambda>s. None),
      today = ''2025-01-01''\<rparr>"

definition demo_world :: "(string \<times> string) list \<Rightarrow> world" where
  "demo_world files =
     \<lparr>fs = demo_fs files, cwd = demo_root, out = [], calls = [], current_version = None,
      new_version = None, tag_name = None, release_notes = None, dry_run = False,
      original_dir = None\<rparr>"

text \<open>The root directory of a clean checkout holds the build script.\<close>

definition demo_files :: "(string \<times> string) list" where
  "demo_files = [(''build.sh'', ''#!/bin/sh'')]"

subsection \<open>Notions used to state the properties\<close>

text \<open>
  The external calls of the steps of \<^verbatim>\<open>run\<close> up to the build: \<^verbatim>\<open>mount\<close>,
  \<^verbatim>\<open>hdiutil detach\<close> of a volume, and the build script.
\<close>

definition early_call :: "env \<Rightarrow> call \<Rightarrow> bool" where
  "early_call E c =
     (case c of
        Subprocess argv \<Rightarrow>
          argv = [''mount''] \<or> take 2 argv = [''hdiutil'', ''detach'']
          \<or> argv = [path_str (build_script E)]
      | GitPython op \<Rightarrow> False)"

text \<open>
  When the build step is taken to fail, as claim C3 words it: the build procedure exits
  with a status other than 0, or it exits with 0 and the bundle is not there.
\<close>

definition claimed_build_failure :: "env \<Rightarrow> world \<Rightarrow> bool" where
  "claimed_build_failure E w =
     (case proc E (length (calls w)) [path_str (build_script E)] (cwd w) (fs w) of
        Not_started err \<Rightarrow> False
      | Completed rc so se f \<Rightarrow> rc \<noteq> 0 \<or> (rc = 0 \<and> f (app_path E) = None))"

text \<open>
  When \<^verbatim>\<open>build_app\<close> does raise: the script is not there (\<^verbatim>\<open>os.chmod\<close> fails), it
  cannot be started, it exits with a status other than 0, the bundle is not there after
  it, or the listing of the release directory fails.
\<close>

definition build_failure :: "env \<Rightarrow> world \<Rightarrow> bool" where
  "build_failure E w =
     (fs w (build_script E) = None \<or>
      (case proc E (length (calls w)) [path_str (build_script E)] (cwd w) (fs w) of
         Not_started err \<Rightarrow> True
       | Completed rc so se f \<Rightarrow>
           rc \<noteq> 0 \<or> f (app_path E) = None \<or> snd (listing E f (release_dir E)) \<noteq> None))"

text \<open>
  Frame conditions. \<open>keeps R m\<close>: whatever \<open>m\<close> does and however it ends, the state it
  leaves is related by \<open>R\<close> to the state it started in.
\<close>

definition keeps :: "(world \<Rightarrow> world \<Rightarrow> bool) \<Rightarrow> 'a prog \<Rightarrow> bool" where
  "keeps R m = (\<forall>w. R w (snd (m w)))"

definition preorder_on_worlds :: "(world \<Rightarrow> world \<Rightarrow> bool) \<Rightarrow> bool" where
  "preorder_on_worlds R = ((\<forall>w. R w w) \<and> (\<forall>a b c. R a b \<longrightarrow> R b c \<longrightarrow> R a c))"

text \<open>
  \<open>steady w w'\<close>: the lines printed in \<open>w\<close> are still the first lines printed in \<open>w'\<close>, and
  the attributes \<^verbatim>\<open>new_version\<close>, \<^verbatim>\<open>tag_name\<close> and \<^verbatim>\<open>dry_run\<close> are the same.
\<close>

definition steady :: "world \<Rightarrow> world \<Rightarrow> bool" where
  "steady w w' = (prefix (out w) (out w') \<and> new_version w' = new_version w
                  \<and> tag_name w' = tag_name w \<and> dry_run w' = dry_run w)"

text \<open>\<open>only_calls S w w'\<close>: from \<open>w\<close> to \<open>w'\<close>, external calls were only added, each in \<open>S\<close>.\<close>

definition only_calls :: "(call \<Rightarrow> bool) \<Rightarrow> world \<Rightarrow> world \<Rightarrow> bool" where
  "only_calls S w w' = (\<exists>new. calls w' = calls w @ new \<and> list_all S new)"

text \<open>A machine on which every command exits with status 0 and changes nothing.\<close>

definition quiet_env :: env where
  "quiet_env = (demo_env [] [])\<lparr>proc := (\<lambda>n argv d f. Completed 0 [] [] f)\<rparr>"



subsection \<open>Assertions about the working directory\<close>









section \<open>Properties of the script\<close>

subsection \<open>Decimal strings\<close>

declare str_nat.simps [simp del]

lemma str_nat_digits: "list_all is_digit (str_nat n)"
proof (induction n rule: str_nat.induct)
  case (1 n)
  show ?case
  proof (cases "n < 10")
    case True
    then show ?thesis
      by (subst str_nat.simps) (simp add: is_digit_def digit_char_def)
  next
    case False
    have "n mod 10 < 10" by simp
    then have "is_digit (digit_char (n mod 10))"
      by (simp add: is_digit_def digit_char_def)
    with 1 False show ?thesis
      by (subst str_nat.simps) simp
  qed
qed

lemma str_nat_nonempty: "str_nat n \<noteq> []"
  by (subst str_nat.simps) simp

lemma digit_val_digit_char: "d < 10 \<Longrightarrow> digit_val (digit_char d) = d"
  by (simp add: digit_val_def digit_char_def)

lemma digits_value_digits:
  "list_all is_digit xs \<Longrightarrow> xs \<noteq> [] \<or> prev \<Longrightarrow>
   digits_value prev acc xs = Some (foldl (\<lambda>a c. 10 * a + digit_val c) acc xs)"
  by (induction xs arbitrary: prev acc) auto

lemma foldl_str_nat: "foldl (\<lambda>a c. 10 * a + digit_val c) 0 (str_nat n) = n"
proof (induction n rule: str_nat.induct)
  case (1 n)
  show ?case
  proof (cases "n < 10")
    case True
    then show ?thesis
      by (subst str_nat.simps) (simp add: digit_val_digit_char)
  next
    case False
    with 1 show ?thesis
      by (subst str_nat.simps) (simp add: digit_val_digit_char)
  qed
qed

lemma digits_value_str_nat: "digits_value False 0 (str_nat n) = Some n"
  using digits_value_digits [OF str_nat_digits, of n False 0]
  by (simp add: str_nat_nonempty foldl_str_nat)

lemma is_digit_not_space: "is_digit c \<Longrightarrow> \<not> is_space c"
  by (auto simp: is_digit_def is_space_def Let_def)

lemma py_strip_id:
  assumes "s \<noteq> []" "\<not> is_space (hd s)" "\<not> is_space (last s)"
  shows "py_strip s = s"
proof -
  from assms have 1: "dropWhile is_space s = s"
    by (cases s) auto
  from assms have 2: "dropWhile is_space (rev s) = rev s"
    by (cases "rev s") (auto simp: last_rev [symmetric] simp del: last_rev)
  show ?thesis by (simp add: py_strip_def 1 2)
qed

lemma split_dot_skip:
  "CHR ''.'' \<notin> set xs \<Longrightarrow> split_from ''.'' acc (xs @ rest) = split_from ''.'' (rev xs @ acc) rest"
  by (induction xs arbitrary: acc) auto

lemma is_digit_not_dot: "is_digit c \<Longrightarrow> c \<noteq> CHR ''.''"
  by (auto simp: is_digit_def)

lemma str_nat_no_dot: "CHR ''.'' \<notin> set (str_nat n)"
  using str_nat_digits [of n] is_digit_not_dot by (auto simp: list_all_iff)

lemma split_version:
  "py_split ''.'' (str_nat a @ ''.'' @ str_nat b @ ''.'' @ str_nat c) = [str_nat a, str_nat b, str_nat c]"
proof -
  have "split_from ''.'' [] (str_nat a @ (''.'' @ str_nat b @ ''.'' @ str_nat c))
        = split_from ''.'' (rev (str_nat a) @ []) (''.'' @ str_nat b @ ''.'' @ str_nat c)"
    by (rule split_dot_skip) (rule str_nat_no_dot)
  also have "\<dots> = str_nat a # split_from ''.'' [] (str_nat b @ (''.'' @ str_nat c))"
    by simp
  also have "split_from ''.'' [] (str_nat b @ (''.'' @ str_nat c))
        = split_from ''.'' (rev (str_nat b) @ []) (''.'' @ str_nat c)"
    by (rule split_dot_skip) (rule str_nat_no_dot)
  also have "\<dots> = str_nat b # split_from ''.'' [] (str_nat c @ [])"
    by simp
  also have "split_from ''.'' [] (str_nat c @ []) = split_from ''.'' (rev (str_nat c) @ []) []"
    by (rule split_dot_skip) (rule str_nat_no_dot)
  finally show ?thesis by (simp add: py_split_def)
qed

lemma str_nat_hd_last: "is_digit (hd (str_nat n)) \<and> is_digit (last (str_nat n))"
  using str_nat_digits [of n] str_nat_nonempty [of n]
  by (cases "str_nat n") (auto simp: list_all_iff)

lemma py_int_str_nat: "py_int (str_nat n) = Inr (int n)"
proof -
  have s: "py_strip (str_nat n) = str_nat n"
    using str_nat_hd_last [of n] str_nat_nonempty [of n]
    by (intro py_strip_id) (auto dest: is_digit_not_space)
  obtain c cs where cs: "str_nat n = c # cs"
    using str_nat_nonempty [of n] by (cases "str_nat n") auto
  with str_nat_hd_last [of n] have "is_digit c" by simp
  then have "c \<noteq> CHR ''-''" "c \<noteq> CHR ''+''"
    by (auto simp: is_digit_def)
  then show ?thesis
    using digits_value_str_nat [of n] s cs
    by (simp add: py_int_def Let_def)
qed

lemma str_int_nat: "str_int (int n) = str_nat n"
  by (simp add: str_int_def)

subsection \<open>The version bump\<close>

lemma read_version_string:
  "read_version (Some (PStr (version_string (int a, int b, int c)))) = Inr (int a, int b, int c)"
  using split_version [of a b c]
  by (simp add: read_version_def version_parts_def version_string_def str_int_nat
      py_index_def py_int_str_nat)

lemma calculate_new_version_eq:
  "calculate_new_version t (w\<lparr>current_version := Some (PStr (version_string (int a, int b, int c)))\<rparr>)
   = (Inr (), w\<lparr>current_version := Some (PStr (version_string (int a, int b, int c))),
                new_version := Some (version_string (bump_version t (int a, int b, int c))),
                tag_name := Some (''v'' @ version_string (bump_version t (int a, int b, int c))),
                out := out w @ [''New version: '' @ version_string (bump_version t (int a, int b, int c))]\<rparr>)"
  by (simp add: calculate_new_version_def try_except_def reading_def and_then_def lift_def
      read_version_string then_do_def modify_def say_def succeed_def str_opt_def)

text \<open>
  Claim C1. Let the current version be the string of a triple \<open>(M, m, p)\<close> of natural
  numbers. For each of the bump types \<^verbatim>\<open>major\<close>, \<^verbatim>\<open>minor\<close> and \<^verbatim>\<open>patch\<close>,
  \<^verbatim>\<open>calculate_new_version\<close> returns normally, sets \<^verbatim>\<open>new_version\<close> to the string of
  \<open>(M+1, 0, 0)\<close>, \<open>(M, m+1, 0)\<close> and \<open>(M, m, p+1)\<close> respectively, sets \<^verbatim>\<open>tag_name\<close> to
  \<^verbatim>\<open>v\<close> followed by that string, and prints it. The script's own reading of each new
  string gives back exactly that triple, and each triple is strictly greater than
  \<open>(M, m, p)\<close> in the order of semantic versioning.
\<close>

theorem version_bump_transition:
  fixes M m p :: nat
  shows
    "(let cur = (int M, int m, int p);
          w0 = w\<lparr>current_version := Some (PStr (version_string cur))\<rparr>;
          after = (\<lambda>v. (Inr (), w0\<lparr>new_version := Some (version_string v),
                                   tag_name := Some (''v'' @ version_string v),
                                   out := out w @ [''New version: '' @ version_string v]\<rparr>))
      in calculate_new_version ''major'' w0 = after (int M + 1, 0, 0)
       \<and> calculate_new_version ''minor'' w0 = after (int M, int m + 1, 0)
       \<and> calculate_new_version ''patch'' w0 = after (int M, int m, int p + 1)
       \<and> read_version (Some (PStr (version_string (int M + 1, 0, 0)))) = Inr (int M + 1, 0, 0)
       \<and> read_version (Some (PStr (version_string (int M, int m + 1, 0)))) = Inr (int M, int m + 1, 0)
       \<and> read_version (Some (PStr (version_string (int M, int m, int p + 1)))) = Inr (int M, int m, int p + 1)
       \<and> semver_less cur (int M + 1, 0, 0)
       \<and> semver_less cur (int M, int m + 1, 0)
       \<and> semver_less cur (int M, int m, int p + 1))"
proof -
  have r1: "read_version (Some (PStr (version_string (int M + 1, 0, 0)))) = Inr (int M + 1, 0, 0)"
    using read_version_string [of "M + 1" 0 0] by (simp add: ac_simps)
  have r2: "read_version (Some (PStr (version_string (int M, int m + 1, 0)))) = Inr (int M, int m + 1, 0)"
    using read_version_string [of M "m + 1" 0] by (simp add: ac_simps)
  have r3: "read_version (Some (PStr (version_string (int M, int m, int p + 1)))) = Inr (int M, int m, int p + 1)"
    using read_version_string [of M m "p + 1"] by (simp add: ac_simps)
  show ?thesis
    unfolding Let_def
    by (simp only: calculate_new_version_eq r1 r2 r3)
       (simp add: bump_version_def semver_less_def)
qed

subsection \<open>Running a program in a state\<close>

lemma succeed_apply: "succeed x w = (Inr x, w)"
  by (simp add: succeed_def)

lemma raise_apply: "raise e w = (Inl e, w)"
  by (simp add: raise_def)

lemma lift_apply: "lift r w = (r, w)"
  by (simp add: lift_def)

lemma modify_apply: "modify f w = (Inr (), f w)"
  by (simp add: modify_def)

lemma say_apply: "say s w = (Inr (), w\<lparr>out := out w @ [s]\<rparr>)"
  by (simp add: say_def modify_def)

lemma reading_apply: "reading f w = f w w"
  by (simp add: reading_def)

lemma and_then_apply:
  "and_then m f w = (case m w of (Inl e, w') \<Rightarrow> (Inl e, w') | (Inr x, w') \<Rightarrow> f x w')"
  by (simp add: and_then_def)

lemma then_do_apply:
  "then_do m n w = (case m w of (Inl e, w') \<Rightarrow> (Inl e, w') | (Inr x, w') \<Rightarrow> n w')"
  by (simp add: then_do_def and_then_def)

lemma ignore_apply:
  "ignore m w = (case m w of (Inl e, w') \<Rightarrow> (Inl e, w') | (Inr x, w') \<Rightarrow> (Inr (), w'))"
  by (simp add: ignore_def and_then_def succeed_def)

lemma block_Nil_apply: "block [] w = (Inr (), w)"
  by (simp add: succeed_def)

lemma block_Cons_apply:
  "block (m # ms) w = (case m w of (Inl e, w') \<Rightarrow> (Inl e, w') | (Inr x, w') \<Rightarrow> block ms w')"
  by (simp add: then_do_def and_then_def)

lemma try_except_apply:
  "try_except m h w = (case m w of (Inl e, w') \<Rightarrow> h e w' | (Inr x, w') \<Rightarrow> (Inr x, w'))"
  by (simp add: try_except_def)

lemma try_except_on_apply:
  "try_except_on cs m h w =
     (case m w of
        (Inl e, w') \<Rightarrow> if exn_class_of e \<in> set cs then h e w' else (Inl e, w')
      | (Inr x, w') \<Rightarrow> (Inr x, w'))"
  by (simp add: try_except_on_def)

lemma try_finally_apply:
  "try_finally m f w =
     (case m w of (r, w') \<Rightarrow> (case f w' of (Inl e, w'') \<Rightarrow> (Inl e, w'') | (Inr u, w'') \<Rightarrow> (r, w'')))"
  by (simp add: try_finally_def)

lemmas prog_apply = succeed_apply raise_apply lift_apply modify_apply say_apply reading_apply
  and_then_apply then_do_apply ignore_apply block_Nil_apply block_Cons_apply try_except_apply
  try_except_on_apply try_finally_apply

declare block.simps [simp del]

lemma block_append_apply:
  "block (xs @ ys) w = (case block xs w of (Inl e, w') \<Rightarrow> (Inl e, w') | (Inr x, w') \<Rightarrow> block ys w')"
  by (induction xs arbitrary: w) (auto simp: block_Nil_apply block_Cons_apply split: prod.splits sum.splits)

lemma subprocess_run_apply:
  "subprocess_run E check argv w =
     (case proc E (length (calls w)) argv (cwd w) (fs w) of
        Not_started e \<Rightarrow> (Inl (os_error_exn e argv), w\<lparr>calls := calls w @ [Subprocess argv]\<rparr>)
      | Completed rc so se f \<Rightarrow>
          if check \<and> rc \<noteq> 0
          then (Inl (called_process_error argv rc), w\<lparr>calls := calls w @ [Subprocess argv], fs := f\<rparr>)
          else (Inr (rc, so, se), w\<lparr>calls := calls w @ [Subprocess argv], fs := f\<rparr>))"
  by (simp add: subprocess_run_def Let_def split: proc_outcome.split)

subsection \<open>The top-level failure handler\<close>

text \<open>
  Claim C9. Suppose \<^verbatim>\<open>run\<close>, called by \<^verbatim>\<open>main\<close>, raises an exception \<open>e\<close> in state
  \<open>w2\<close>. Then \<^verbatim>\<open>main\<close> prints the error and the line about reverting, and starts
  \<^verbatim>\<open>git restore\<close> on the metadata file with \<^verbatim>\<open>check=True\<close>. If that command exits with
  status 0, \<^verbatim>\<open>main\<close> returns normally and the exit status of the process is 0: the
  failure of the release leaves no non-zero status. If the command exits with another
  status, or cannot be started, the exception of the restore call leaves \<^verbatim>\<open>main\<close>
  unhandled (and the exit status is 1).
\<close>

theorem main_failure_handler:
  assumes "run E version_type (main_start dry w) = (Inl e, w2)"
  shows "main E version_type dry w =
     (let argv = [''git'', ''restore'', path_str (info_plist_path E)];
          w3 = w2\<lparr>out := out w2 @ [''Error during release process: '' @ exn_str e,
                                    ''Reverting Info.plist to the original version...''],
                 calls := calls w2 @ [Subprocess argv]\<rparr>
      in case proc E (length (calls w2)) argv (cwd w2) (fs w2) of
           Not_started err \<Rightarrow> (Inl (os_error_exn err argv), w3)
         | Completed rc so se f \<Rightarrow>
             if rc \<noteq> 0 then (Inl (called_process_error argv rc), w3\<lparr>fs := f\<rparr>)
             else (Inr (), w3\<lparr>fs := f\<rparr>))
   \<and> exit_status (main E version_type dry w) =
     (case proc E (length (calls w2)) [''git'', ''restore'', path_str (info_plist_path E)] (cwd w2) (fs w2) of
        Not_started err \<Rightarrow> 1
      | Completed rc so se f \<Rightarrow> if rc \<noteq> 0 then 1 else 0)"
proof (cases dry)
  case True
  with assms show ?thesis
    by (simp add: main_def main_start_def prog_apply subprocess_run_apply Let_def exit_status_def
        split: proc_outcome.split)
next
  case False
  with assms show ?thesis
    by (simp add: main_def main_start_def prog_apply subprocess_run_apply Let_def exit_status_def
        split: proc_outcome.split)
qed




text \<open>
  The theorem at work on the concrete machine: the build script exits with status 1, so
  \<^verbatim>\<open>run\<close> raises; with a working \<^verbatim>\<open>git restore\<close> the process ends with status 0 and the
  restore is its last external call; with a failing \<^verbatim>\<open>git restore\<close> it ends with status 1.
\<close>

theorem main_failure_handler_witness:
  "fst (run (demo_env [[''/src/win-dock/build.sh'']] []) ''patch'' (main_start False (demo_world demo_files)))
     = Inl (Exn RuntimeError
         (''Build failed: Command ['' @ quoted ''/src/win-dock/build.sh'' @ ''] returned non-zero exit status 1.''))
   \<and> exit_status (main (demo_env [[''/src/win-dock/build.sh'']] []) ''patch'' False (demo_world demo_files)) = 0
   \<and> last (calls (snd (main (demo_env [[''/src/win-dock/build.sh'']] []) ''patch'' False (demo_world demo_files))))
       = Subprocess [''git'', ''restore'', ''/src/win-dock/WinDock/Info.plist'']
   \<and> fst (run (demo_env [[''/src/win-dock/build.sh''], [''git'', ''restore'']] []) ''patch''
           (main_start False (demo_world demo_files)))
     = Inl (Exn RuntimeError
         (''Build failed: Command ['' @ quoted ''/src/win-dock/build.sh'' @ ''] returned non-zero exit status 1.''))
   \<and> exit_status (main (demo_env [[''/src/win-dock/build.sh''], [''git'', ''restore'']] []) ''patch'' False
                    (demo_world demo_files)) = 1"
proof -
  let ?E1 = "demo_env [[''/src/win-dock/build.sh'']] []"
  let ?E2 = "demo_env [[''/src/win-dock/build.sh''], [''git'', ''restore'']] []"
  let ?e = "Exn RuntimeError
         (''Build failed: Command ['' @ quoted ''/src/win-dock/build.sh'' @ ''] returned non-zero exit status 1.'')"
  have f1: "fst (run ?E1 ''patch'' (main_start False (demo_world demo_files))) = Inl ?e"
    by code_simp
  have f2: "fst (run ?E2 ''patch'' (main_start False (demo_world demo_files))) = Inl ?e"
    by code_simp
  have h1: "run ?E1 ''patch'' (main_start False (demo_world demo_files))
            = (Inl ?e, snd (run ?E1 ''patch'' (main_start False (demo_world demo_files))))"
    using f1 by (metis prod.collapse)
  have h2: "run ?E2 ''patch'' (main_start False (demo_world demo_files))
            = (Inl ?e, snd (run ?E2 ''patch'' (main_start False (demo_world demo_files))))"
    using f2 by (metis prod.collapse)
  have c1: "exit_status (main ?E1 ''patch'' False (demo_world demo_files)) = 0"
    by code_simp
  have c2: "exit_status (main ?E2 ''patch'' False (demo_world demo_files)) = 1"
    by code_simp
  have c3: "last (calls (snd (main ?E1 ''patch'' False (demo_world demo_files))))
       = Subprocess [''git'', ''restore'', ''/src/win-dock/WinDock/Info.plist'']"
    by code_simp
  show ?thesis
    using main_failure_handler [OF h1] main_failure_handler [OF h2] f1 f2 c1 c2 c3
    by simp
qed

subsection \<open>A dry run\<close>

text \<open>
  Claim C2, evaluated. The root directory holds an archive \<^verbatim>\<open>WinDock.zip\<close> of an earlier
  release and a file \<^verbatim>\<open>release_notes.md\<close>. A run with \<^verbatim>\<open>--dry-run\<close> returns normally and
  leaves the metadata file and the formula as they were, but it deletes both files
  (\<^verbatim>\<open>cleanup_stale_resources\<close> has no dry-run guard; \<^verbatim>\<open>generate_release_notes\<close> writes
  the notes file and \<^verbatim>\<open>cleanup\<close> deletes it), and it runs the build script, which
  creates the application bundle.
\<close>

theorem dry_run_deletes_files:
  "(let E = demo_env [] [];
        w = demo_world (demo_files @ [(''WinDock.zip'', ''archive of 1.2.3''),
                                      (''release_notes.md'', ''notes of 1.2.3'')]);
        r = main E ''patch'' True w
    in fst r = Inr ()
     \<and> dry_run (snd r)
     \<and> fs w (demo_root @ [''WinDock.zip'']) = Some (File ''archive of 1.2.3'')
     \<and> fs (snd r) (demo_root @ [''WinDock.zip'']) = None
     \<and> fs w (demo_root @ [''release_notes.md'']) = Some (File ''notes of 1.2.3'')
     \<and> fs (snd r) (demo_root @ [''release_notes.md'']) = None
     \<and> fs w (app_path E) = None
     \<and> fs (snd r) (app_path E) = Some Dir
     \<and> fs (snd r) (info_plist_path E) = fs w (info_plist_path E)
     \<and> fs (snd r) (local_formula_path E) = fs w (local_formula_path E)
     \<and> calls (snd r) =
         [Subprocess [''mount''],
          Subprocess [''/src/win-dock/build.sh''],
          Subprocess [''git'', ''describe'', ''--tags'', ''--abbrev=0'', ''HEAD^''],
          Subprocess [''git'', ''log'', ''--oneline'', ''--pretty=format:- %s'', ''HEAD'']])"
  by code_simp

subsection \<open>Frame conditions\<close>

lemma keepsI: "(\<And>w. R w (snd (m w))) \<Longrightarrow> keeps R m"
  by (simp add: keeps_def)

lemma keepsD: "keeps R m \<Longrightarrow> m w = (r, w') \<Longrightarrow> R w w'"
  by (auto simp: keeps_def dest: spec [where x = w])

lemma keeps_succeed: "preorder_on_worlds R \<Longrightarrow> keeps R (succeed x)"
  by (simp add: keeps_def preorder_on_worlds_def succeed_def)

lemma keeps_raise: "preorder_on_worlds R \<Longrightarrow> keeps R (raise e)"
  by (simp add: keeps_def preorder_on_worlds_def raise_def)

lemma keeps_lift: "preorder_on_worlds R \<Longrightarrow> keeps R (lift r)"
  by (simp add: keeps_def preorder_on_worlds_def lift_def)

lemma keeps_and_then:
  assumes "preorder_on_worlds R" "keeps R m" "\<And>x. keeps R (f x)"
  shows "keeps R (and_then m f)"
  unfolding keeps_def
proof
  fix w
  obtain r w1 where m: "m w = (r, w1)" by (cases "m w")
  have 1: "R w w1" using assms(2) m by (rule keepsD)
  show "R w (snd (and_then m f w))"
  proof (cases r)
    case (Inl e)
    with m 1 show ?thesis by (simp add: and_then_apply)
  next
    case (Inr x)
    obtain r2 w2 where f: "f x w1 = (r2, w2)" by (cases "f x w1")
    have "R w1 w2" using assms(3) f by (rule keepsD)
    with 1 assms(1) have "R w w2" unfolding preorder_on_worlds_def by blast
    with m Inr f show ?thesis by (simp add: and_then_apply)
  qed
qed

lemma keeps_then_do:
  "preorder_on_worlds R \<Longrightarrow> keeps R m \<Longrightarrow> keeps R n \<Longrightarrow> keeps R (then_do m n)"
  unfolding then_do_def by (rule keeps_and_then)

lemma keeps_ignore: "preorder_on_worlds R \<Longrightarrow> keeps R m \<Longrightarrow> keeps R (ignore m)"
  unfolding ignore_def by (intro keeps_and_then keeps_succeed)

lemma keeps_block:
  "preorder_on_worlds R \<Longrightarrow> list_all (keeps R) ms \<Longrightarrow> keeps R (block ms)"
  by (induction ms) (auto simp: block.simps intro: keeps_succeed keeps_then_do)

lemma keeps_reading: "(\<And>w. keeps R (f w)) \<Longrightarrow> keeps R (reading f)"
  by (simp add: keeps_def reading_def)

lemma keeps_try_except:
  assumes "preorder_on_worlds R" "keeps R m" "\<And>e. keeps R (h e)"
  shows "keeps R (try_except m h)"
  unfolding keeps_def
proof
  fix w
  obtain r w1 where m: "m w = (r, w1)" by (cases "m w")
  have 1: "R w w1" using assms(2) m by (rule keepsD)
  show "R w (snd (try_except m h w))"
  proof (cases r)
    case (Inr x)
    with m 1 show ?thesis by (simp add: try_except_apply)
  next
    case (Inl e)
    obtain r2 w2 where f: "h e w1 = (r2, w2)" by (cases "h e w1")
    have "R w1 w2" using assms(3) f by (rule keepsD)
    with 1 assms(1) have "R w w2" unfolding preorder_on_worlds_def by blast
    with m Inl f show ?thesis by (simp add: try_except_apply)
  qed
qed

lemma keeps_try_except_on:
  assumes "preorder_on_worlds R" "keeps R m" "\<And>e. keeps R (h e)"
  shows "keeps R (try_except_on cs m h)"
  unfolding keeps_def
proof
  fix w
  obtain r w1 where m: "m w = (r, w1)" by (cases "m w")
  have 1: "R w w1" using assms(2) m by (rule keepsD)
  show "R w (snd (try_except_on cs m h w))"
  proof (cases r)
    case (Inr x)
    with m 1 show ?thesis by (simp add: try_except_on_apply)
  next
    case (Inl e)
    obtain r2 w2 where f: "h e w1 = (r2, w2)" by (cases "h e w1")
    have "R w1 w2" using assms(3) f by (rule keepsD)
    with 1 assms(1) have "R w w2" unfolding preorder_on_worlds_def by blast
    with m Inl f 1 show ?thesis by (simp add: try_except_on_apply)
  qed
qed

lemma keeps_try_finally:
  assumes "preorder_on_worlds R" "keeps R m" "keeps R f"
  shows "keeps R (try_finally m f)"
  unfolding keeps_def
proof
  fix w
  obtain r w1 where m: "m w = (r, w1)" by (cases "m w")
  have 1: "R w w1" using assms(2) m by (rule keepsD)
  obtain r2 w2 where f: "f w1 = (r2, w2)" by (cases "f w1")
  have "R w1 w2" using assms(3) f by (rule keepsD)
  with 1 assms(1) have "R w w2" unfolding preorder_on_worlds_def by blast
  with m f show "R w (snd (try_finally m f w))"
    by (cases r2) (simp_all add: try_finally_apply)
qed

lemma keeps_modify: "(\<And>w. R w (f w)) \<Longrightarrow> keeps R (modify f)"
  by (simp add: keeps_def modify_def)


lemma keeps_if:
  "(c \<Longrightarrow> keeps R a) \<Longrightarrow> (\<not> c \<Longrightarrow> keeps R b) \<Longrightarrow> keeps R (if c then a else b)"
  by (cases c) simp_all

lemma keeps_case_prod: "(\<And>a b. keeps R (f a b)) \<Longrightarrow> keeps R (case p of (a, b) \<Rightarrow> f a b)"
  by (cases p) simp

lemma keeps_case_option:
  "keeps R a \<Longrightarrow> (\<And>x. keeps R (f x)) \<Longrightarrow> keeps R (case v of None \<Rightarrow> a | Some x \<Rightarrow> f x)"
  by (cases v) simp_all

lemma keeps_case_sum:
  "(\<And>x. keeps R (f x)) \<Longrightarrow> (\<And>y. keeps R (g y)) \<Longrightarrow> keeps R (case v of Inl x \<Rightarrow> f x | Inr y \<Rightarrow> g y)"
  by (cases v) simp_all

lemma keeps_case_list:
  "keeps R a \<Longrightarrow> (\<And>x xs. keeps R (f x xs)) \<Longrightarrow> keeps R (case v of [] \<Rightarrow> a | x # xs \<Rightarrow> f x xs)"
  by (cases v) simp_all

lemma keeps_weaken: "keeps R m \<Longrightarrow> (\<And>w w'. R w w' \<Longrightarrow> R' w w') \<Longrightarrow> keeps R' m"
  by (simp add: keeps_def)

lemmas keeps_rules = keeps_succeed keeps_raise keeps_lift keeps_and_then keeps_then_do keeps_ignore
  keeps_block keeps_try_except keeps_try_except_on keeps_try_finally

lemma steady_preorder: "preorder_on_worlds steady"
  by (auto simp: preorder_on_worlds_def steady_def)

lemma steady_primitives:
  "keeps steady (say s)"
  "keeps steady (read_file p)"
  "keeps steady (write_file p s)"
  "keeps steady (unlink p)"
  "keeps steady (rmtree p)"
  "keeps steady (mkdir_exist_ok p)"
  "keeps steady (mkdir_parents p)"
  "keeps steady (chmod p)"
  "keeps steady getcwd"
  "keeps steady (chdir p)"
  "keeps steady (subprocess_run E check argv)"
  "keeps steady (git_call E op)"
  "keeps steady (git_push_call E refspec)"
  "keeps steady (git_list_call E op)"
  "keeps steady get_tag_name"
  "keeps steady (modify (\<lambda>w. w\<lparr>original_dir := d\<rparr>))"
  "keeps steady (modify (\<lambda>w. w\<lparr>release_notes := f w\<rparr>))"
  "keeps steady (modify (\<lambda>w. w\<lparr>current_version := v\<rparr>))"
  by (auto simp: keeps_def steady_def say_def modify_def read_file_def write_file_def unlink_def
      rmtree_def mkdir_exist_ok_def mkdir_parents_def chmod_def getcwd_def chdir_def
      subprocess_run_def git_call_def git_push_call_def git_list_call_def get_tag_name_def
      reading_def raise_def succeed_def Let_def
      split: option.split node.split proc_outcome.split sum.split prod.split)

lemmas steady_rules = keeps_rules [OF steady_preorder] keeps_reading keeps_if keeps_case_prod
  keeps_case_option keeps_case_sum keeps_case_list steady_primitives


lemma steady_copy2: "keeps steady (copy2 a b)"
  unfolding copy2_def by (intro steady_rules)

lemma steady_stage_and_commit: "keeps steady (stage_and_commit E files)"
  unfolding stage_and_commit_def
  by (auto intro!: steady_rules simp: Let_def list_all_iff)

lemma steady_push_and_report: "keeps steady (push_and_report E)"
  unfolding push_and_report_def
  by (auto intro!: steady_rules simp: Let_def list_all_iff)

lemma steady_git_commit_via_subprocess: "keeps steady (git_commit_via_subprocess E files)"
  unfolding git_commit_via_subprocess_def
  by (auto intro!: steady_rules steady_stage_and_commit steady_push_and_report
      simp: Let_def list_all_iff)


lemma steady_detach_volumes: "keeps steady (detach_volumes E ls)"
  by (induction ls) (auto intro!: steady_rules simp: Let_def list_all_iff)

lemma steady_update_homebrew_formula_version: "keeps steady (update_homebrew_formula_version E)"
  unfolding update_homebrew_formula_version_def
  by (auto intro!: steady_rules steady_copy2 steady_git_commit_via_subprocess steady_detach_volumes simp: Let_def list_all_iff)

lemma steady_update_version_in_plist: "keeps steady (update_version_in_plist E)"
  unfolding update_version_in_plist_def
  by (auto intro!: steady_rules steady_copy2 steady_git_commit_via_subprocess steady_detach_volumes steady_update_homebrew_formula_version simp: Let_def list_all_iff)

lemma steady_remove_stale: "keeps steady (remove_stale p)"
  unfolding remove_stale_def
  by (auto intro!: steady_rules steady_copy2 steady_git_commit_via_subprocess steady_detach_volumes steady_update_homebrew_formula_version steady_update_version_in_plist simp: Let_def list_all_iff)

lemma steady_cleanup_stale_resources: "keeps steady (cleanup_stale_resources E)"
  unfolding cleanup_stale_resources_def
  by (auto intro!: steady_rules steady_copy2 steady_git_commit_via_subprocess steady_detach_volumes steady_update_homebrew_formula_version steady_update_version_in_plist steady_remove_stale simp: Let_def list_all_iff)

lemma steady_build_app: "keeps steady (build_app E)"
  unfolding build_app_def
  by (auto intro!: steady_rules steady_copy2 steady_git_commit_via_subprocess steady_detach_volumes steady_update_homebrew_formula_version steady_update_version_in_plist steady_remove_stale steady_cleanup_stale_resources simp: Let_def list_all_iff)

lemma steady_get_current_version: "keeps steady (get_current_version E)"
  unfolding get_current_version_def
  by (auto intro!: steady_rules steady_copy2 steady_git_commit_via_subprocess steady_detach_volumes steady_update_homebrew_formula_version steady_update_version_in_plist steady_remove_stale steady_cleanup_stale_resources steady_build_app simp: Let_def list_all_iff)

lemma steady_commit_version_bump: "keeps steady (commit_version_bump E)"
  unfolding commit_version_bump_def
  by (auto intro!: steady_rules steady_copy2 steady_git_commit_via_subprocess steady_detach_volumes steady_update_homebrew_formula_version steady_update_version_in_plist steady_remove_stale steady_cleanup_stale_resources steady_build_app steady_get_current_version simp: Let_def list_all_iff)

lemma steady_git_tag_via_subprocess: "keeps steady (git_tag_via_subprocess E)"
  unfolding git_tag_via_subprocess_def
  by (auto intro!: steady_rules steady_copy2 steady_git_commit_via_subprocess steady_detach_volumes steady_update_homebrew_formula_version steady_update_version_in_plist steady_remove_stale steady_cleanup_stale_resources steady_build_app steady_get_current_version steady_commit_version_bump simp: Let_def list_all_iff)

lemma steady_create_tag: "keeps steady (create_tag E)"
  unfolding create_tag_def
  by (auto intro!: steady_rules steady_copy2 steady_git_commit_via_subprocess steady_detach_volumes steady_update_homebrew_formula_version steady_update_version_in_plist steady_remove_stale steady_cleanup_stale_resources steady_build_app steady_get_current_version steady_commit_version_bump steady_git_tag_via_subprocess simp: Let_def list_all_iff)

lemma steady_collect_commits: "keeps steady (collect_commits E)"
  unfolding collect_commits_def
  by (auto intro!: steady_rules steady_copy2 steady_git_commit_via_subprocess steady_detach_volumes steady_update_homebrew_formula_version steady_update_version_in_plist steady_remove_stale steady_cleanup_stale_resources steady_build_app steady_get_current_version steady_commit_version_bump steady_git_tag_via_subprocess steady_create_tag simp: Let_def list_all_iff)

lemma steady_generate_release_notes: "keeps steady (generate_release_notes E)"
  unfolding generate_release_notes_def
  by (auto intro!: steady_rules steady_copy2 steady_git_commit_via_subprocess steady_detach_volumes steady_update_homebrew_formula_version steady_update_version_in_plist steady_remove_stale steady_cleanup_stale_resources steady_build_app steady_get_current_version steady_commit_version_bump steady_git_tag_via_subprocess steady_create_tag steady_collect_commits simp: Let_def list_all_iff)

lemma steady_has_gh_cli: "keeps steady (has_gh_cli E)"
  unfolding has_gh_cli_def
  by (auto intro!: steady_rules steady_copy2 steady_git_commit_via_subprocess steady_detach_volumes steady_update_homebrew_formula_version steady_update_version_in_plist steady_remove_stale steady_cleanup_stale_resources steady_build_app steady_get_current_version steady_commit_version_bump steady_git_tag_via_subprocess steady_create_tag steady_collect_commits steady_generate_release_notes simp: Let_def list_all_iff)

lemma steady_make_archive: "keeps steady (make_archive E)"
  unfolding make_archive_def
  by (auto intro!: steady_rules steady_copy2 steady_git_commit_via_subprocess steady_detach_volumes steady_update_homebrew_formula_version steady_update_version_in_plist steady_remove_stale steady_cleanup_stale_resources steady_build_app steady_get_current_version steady_commit_version_bump steady_git_tag_via_subprocess steady_create_tag steady_collect_commits steady_generate_release_notes steady_has_gh_cli simp: Let_def list_all_iff)

lemma steady_package_assets: "keeps steady (package_assets E)"
  unfolding package_assets_def
  by (auto intro!: steady_rules steady_copy2 steady_git_commit_via_subprocess steady_detach_volumes steady_update_homebrew_formula_version steady_update_version_in_plist steady_remove_stale steady_cleanup_stale_resources steady_build_app steady_get_current_version steady_commit_version_bump steady_git_tag_via_subprocess steady_create_tag steady_collect_commits steady_generate_release_notes steady_has_gh_cli steady_make_archive simp: Let_def list_all_iff)

lemma steady_gh_release: "keeps steady (gh_release E)"
  unfolding gh_release_def
  by (auto intro!: steady_rules steady_copy2 steady_git_commit_via_subprocess steady_detach_volumes steady_update_homebrew_formula_version steady_update_version_in_plist steady_remove_stale steady_cleanup_stale_resources steady_build_app steady_get_current_version steady_commit_version_bump steady_git_tag_via_subprocess steady_create_tag steady_collect_commits steady_generate_release_notes steady_has_gh_cli steady_make_archive steady_package_assets simp: Let_def list_all_iff)

lemma steady_create_github_release: "keeps steady (create_github_release E)"
  unfolding create_github_release_def
  by (auto intro!: steady_rules steady_copy2 steady_git_commit_via_subprocess steady_detach_volumes steady_update_homebrew_formula_version steady_update_version_in_plist steady_remove_stale steady_cleanup_stale_resources steady_build_app steady_get_current_version steady_commit_version_bump steady_git_tag_via_subprocess steady_create_tag steady_collect_commits steady_generate_release_notes steady_has_gh_cli steady_make_archive steady_package_assets steady_gh_release simp: Let_def list_all_iff)

lemma steady_update_formula_checksum: "keeps steady (update_formula_checksum E p)"
  unfolding update_formula_checksum_def
  by (auto intro!: steady_rules steady_copy2 steady_git_commit_via_subprocess steady_detach_volumes steady_update_homebrew_formula_version steady_update_version_in_plist steady_remove_stale steady_cleanup_stale_resources steady_build_app steady_get_current_version steady_commit_version_bump steady_git_tag_via_subprocess steady_create_tag steady_collect_commits steady_generate_release_notes steady_has_gh_cli steady_make_archive steady_package_assets steady_gh_release steady_create_github_release simp: Let_def list_all_iff)

lemma steady_bind_original_dir: "keeps steady (bind_original_dir )"
  unfolding bind_original_dir_def
  by (auto intro!: steady_rules steady_copy2 steady_git_commit_via_subprocess steady_detach_volumes steady_update_homebrew_formula_version steady_update_version_in_plist steady_remove_stale steady_cleanup_stale_resources steady_build_app steady_get_current_version steady_commit_version_bump steady_git_tag_via_subprocess steady_create_tag steady_collect_commits steady_generate_release_notes steady_has_gh_cli steady_make_archive steady_package_assets steady_gh_release steady_create_github_release steady_update_formula_checksum simp: Let_def list_all_iff)

lemma steady_chdir_original_dir: "keeps steady (chdir_original_dir )"
  unfolding chdir_original_dir_def
  by (auto intro!: steady_rules steady_copy2 steady_git_commit_via_subprocess steady_detach_volumes steady_update_homebrew_formula_version steady_update_version_in_plist steady_remove_stale steady_cleanup_stale_resources steady_build_app steady_get_current_version steady_commit_version_bump steady_git_tag_via_subprocess steady_create_tag steady_collect_commits steady_generate_release_notes steady_has_gh_cli steady_make_archive steady_package_assets steady_gh_release steady_create_github_release steady_update_formula_checksum steady_bind_original_dir simp: Let_def list_all_iff)

lemma steady_prepare_tap: "keeps steady (prepare_tap E)"
  unfolding prepare_tap_def
  by (auto intro!: steady_rules steady_copy2 steady_git_commit_via_subprocess steady_detach_volumes steady_update_homebrew_formula_version steady_update_version_in_plist steady_remove_stale steady_cleanup_stale_resources steady_build_app steady_get_current_version steady_commit_version_bump steady_git_tag_via_subprocess steady_create_tag steady_collect_commits steady_generate_release_notes steady_has_gh_cli steady_make_archive steady_package_assets steady_gh_release steady_create_github_release steady_update_formula_checksum steady_bind_original_dir steady_chdir_original_dir simp: Let_def list_all_iff)

lemma steady_publish_formula: "keeps steady (publish_formula E)"
  unfolding publish_formula_def
  by (auto intro!: steady_rules steady_copy2 steady_git_commit_via_subprocess steady_detach_volumes steady_update_homebrew_formula_version steady_update_version_in_plist steady_remove_stale steady_cleanup_stale_resources steady_build_app steady_get_current_version steady_commit_version_bump steady_git_tag_via_subprocess steady_create_tag steady_collect_commits steady_generate_release_notes steady_has_gh_cli steady_make_archive steady_package_assets steady_gh_release steady_create_github_release steady_update_formula_checksum steady_bind_original_dir steady_chdir_original_dir steady_prepare_tap simp: Let_def list_all_iff)

lemma steady_submit_to_homebrew: "keeps steady (submit_to_homebrew E)"
  unfolding submit_to_homebrew_def
  by (auto intro!: steady_rules steady_copy2 steady_git_commit_via_subprocess steady_detach_volumes steady_update_homebrew_formula_version steady_update_version_in_plist steady_remove_stale steady_cleanup_stale_resources steady_build_app steady_get_current_version steady_commit_version_bump steady_git_tag_via_subprocess steady_create_tag steady_collect_commits steady_generate_release_notes steady_has_gh_cli steady_make_archive steady_package_assets steady_gh_release steady_create_github_release steady_update_formula_checksum steady_bind_original_dir steady_chdir_original_dir steady_prepare_tap steady_publish_formula simp: Let_def list_all_iff)

lemma steady_cleanup: "keeps steady (cleanup E)"
  unfolding cleanup_def
  by (auto intro!: steady_rules steady_copy2 steady_git_commit_via_subprocess steady_detach_volumes steady_update_homebrew_formula_version steady_update_version_in_plist steady_remove_stale steady_cleanup_stale_resources steady_build_app steady_get_current_version steady_commit_version_bump steady_git_tag_via_subprocess steady_create_tag steady_collect_commits steady_generate_release_notes steady_has_gh_cli steady_make_archive steady_package_assets steady_gh_release steady_create_github_release steady_update_formula_checksum steady_bind_original_dir steady_chdir_original_dir steady_prepare_tap steady_publish_formula steady_submit_to_homebrew simp: Let_def list_all_iff)

subsection \<open>The build step\<close>

lemma only_calls_preorder: "preorder_on_worlds (only_calls S)"
  unfolding preorder_on_worlds_def only_calls_def
proof (intro conjI allI impI)
  fix w show "\<exists>new. calls w = calls w @ new \<and> list_all S new"
    by (rule exI [of _ "[]"]) simp
next
  fix a b c
  assume "\<exists>new. calls b = calls a @ new \<and> list_all S new"
    and "\<exists>new. calls c = calls b @ new \<and> list_all S new"
  then obtain n1 n2 where "calls b = calls a @ n1" "list_all S n1" "calls c = calls b @ n2" "list_all S n2"
    by blast
  then show "\<exists>new. calls c = calls a @ new \<and> list_all S new"
    by (intro exI [of _ "n1 @ n2"]) simp
qed

lemma only_calls_primitives:
  "keeps (only_calls S) (say s)"
  "keeps (only_calls S) (read_file p)"
  "keeps (only_calls S) (write_file p s)"
  "keeps (only_calls S) (unlink p)"
  "keeps (only_calls S) (chmod p)"
  "keeps (only_calls S) (modify (\<lambda>w. w\<lparr>current_version := v\<rparr>))"
  "keeps (only_calls S) (modify (\<lambda>w. w\<lparr>new_version := nv\<rparr>))"
  "keeps (only_calls S) (modify (\<lambda>w. w\<lparr>tag_name := g w\<rparr>))"
  by (auto simp: keeps_def only_calls_def say_def modify_def read_file_def write_file_def unlink_def
      chmod_def split: option.split node.split)

lemma only_calls_subprocess_run:
  "S (Subprocess argv) \<Longrightarrow> keeps (only_calls S) (subprocess_run E check argv)"
  by (auto simp: keeps_def only_calls_def subprocess_run_def Let_def split: proc_outcome.split)

lemmas only_calls_rules = keeps_rules [OF only_calls_preorder] keeps_reading keeps_if keeps_case_prod
  keeps_case_option keeps_case_sum keeps_case_list only_calls_primitives only_calls_subprocess_run

lemma early_detach_volumes: "keeps (only_calls (early_call E)) (detach_volumes E ls)"
  by (induction ls) (auto intro!: only_calls_rules simp: Let_def list_all_iff early_call_def)

lemma early_remove_stale: "keeps (only_calls S) (remove_stale p)"
  unfolding remove_stale_def
  by (auto intro!: only_calls_rules simp: Let_def list_all_iff)

lemma early_cleanup_stale_resources: "keeps (only_calls (early_call E)) (cleanup_stale_resources E)"
  unfolding cleanup_stale_resources_def
  by (auto intro!: only_calls_rules early_remove_stale early_detach_volumes
      simp: Let_def list_all_iff early_call_def)

lemma early_get_current_version: "keeps (only_calls S) (get_current_version E)"
  unfolding get_current_version_def
  by (auto intro!: only_calls_rules simp: Let_def list_all_iff)

lemma early_calculate_new_version: "keeps (only_calls S) (calculate_new_version t)"
  unfolding calculate_new_version_def
  by (auto intro!: only_calls_rules simp: Let_def list_all_iff)

lemma early_update_homebrew_formula_version: "keeps (only_calls S) (update_homebrew_formula_version E)"
  unfolding update_homebrew_formula_version_def
  by (auto intro!: only_calls_rules simp: Let_def list_all_iff)

lemma early_update_version_in_plist: "keeps (only_calls S) (update_version_in_plist E)"
  unfolding update_version_in_plist_def
  by (auto intro!: only_calls_rules early_update_homebrew_formula_version simp: Let_def list_all_iff)

lemma early_build_app: "keeps (only_calls (early_call E)) (build_app E)"
  unfolding build_app_def
  by (auto intro!: only_calls_rules simp: Let_def list_all_iff early_call_def)

lemma block_map_say: "block (map say xs) w = (Inr (), w\<lparr>out := out w @ xs\<rparr>)"
  by (induction xs arbitrary: w) (simp_all add: prog_apply)

lemma exn_class_os_error: "exn_class_of (os_error_exn err argv) \<noteq> CalledProcessError"
  by (cases err) (simp_all add: os_error_exn_def)

lemma exn_class_called_process_error: "exn_class_of (called_process_error argv rc) = CalledProcessError"
  by (simp add: called_process_error_def)

lemma exn_class_os_exn: "exn_class_of (os_exn c what p) = c"
  by (simp add: os_exn_def)

lemma build_app_apply:
  "fst (build_app E w) =
     (if fs w (build_script E) = None
      then Inl (Exn RuntimeError (''Error during build process: ''
                  @ exn_str (os_exn FileNotFoundError ''No such file or directory'' (build_script E))))
      else case proc E (length (calls w)) [path_str (build_script E)] (cwd w) (fs w) of
             Not_started err \<Rightarrow>
               Inl (Exn RuntimeError (''Error during build process: ''
                      @ exn_str (os_error_exn err [path_str (build_script E)])))
           | Completed rc so se f \<Rightarrow>
               if rc \<noteq> 0
               then Inl (Exn RuntimeError (''Build failed: ''
                           @ exn_str (called_process_error [path_str (build_script E)] rc)))
               else if f (app_path E) = None
               then Inl (Exn RuntimeError (''Error during build process: ''
                           @ ''Build failed - WinDock.app not found at '' @ path_str (app_path E)))
               else case snd (listing E f (release_dir E)) of
                      None \<Rightarrow> Inr ()
                    | Some msg \<Rightarrow> Inl (Exn RuntimeError (''Error during build process: '' @ msg)))"
proof -
  let ?w0 = "w\<lparr>out := out w @ [''Building WinDock...'']\<rparr>"
  let ?argv = "[path_str (build_script E)]"
  show ?thesis
  proof (cases "fs w (build_script E) = None")
    case True
    then show ?thesis
      by (simp add: build_app_def prog_apply chmod_def exn_class_os_exn del: append.simps)
  next
    case False
    then obtain nd where present: "fs w (build_script E) = Some nd"
      by auto
    show ?thesis
    proof (cases "proc E (length (calls w)) ?argv (cwd w) (fs w)")
      case (Not_started err)
      with present show ?thesis
        by (simp add: build_app_def prog_apply chmod_def subprocess_run_apply exn_class_os_error
            exn_class_os_exn del: append.simps)
    next
      case (Completed rc so se f)
      show ?thesis
      proof (cases "rc \<noteq> 0")
        case True
        with present Completed show ?thesis
          by (simp add: build_app_def prog_apply chmod_def subprocess_run_apply
              exn_class_called_process_error exn_class_os_exn del: append.simps)
      next
        case rc0: False
        show ?thesis
        proof (cases "f (app_path E) = None")
          case True
          with present Completed rc0 show ?thesis
            by (simp add: build_app_def prog_apply chmod_def subprocess_run_apply path_exists_def
                exn_class_os_exn del: append.simps)
        next
          case False
          then obtain nd' where "f (app_path E) = Some nd'"
            by auto
          with present Completed rc0 show ?thesis
            by (simp add: build_app_def prog_apply chmod_def subprocess_run_apply path_exists_def
                block_map_say exn_class_os_exn split: prod.split option.split del: append.simps)
        qed
      qed
    qed
  qed
qed

lemma build_app_raises_iff:
  "(\<exists>e. fst (build_app E w) = Inl e) = build_failure E w"
  unfolding build_app_apply build_failure_def
  by (simp split: proc_outcome.split option.split)

lemma build_app_raises_RuntimeError:
  "fst (build_app E w) = Inl e \<Longrightarrow> exn_class_of e = RuntimeError"
  unfolding build_app_apply
  by (auto split: proc_outcome.splits option.splits if_splits)


lemma run_steps_split_build:
  "run_steps E t = take 5 (run_steps E t) @ build_app E # drop 6 (run_steps E t)"
  by (simp add: run_steps_def)

lemma early_before_build: "keeps (only_calls (early_call E)) (block (take 5 (run_steps E t)))"
  by (auto intro!: only_calls_rules early_cleanup_stale_resources early_get_current_version
      early_calculate_new_version early_update_version_in_plist
      simp: run_steps_def)

text \<open>
  Claim C3, as amended. Let the statements of \<^verbatim>\<open>run\<close> before the build return normally
  and leave state \<open>w1\<close>. The build step raises exactly when the build script is missing,
  or cannot be started, or exits with a status other than 0, or the bundle path does not
  exist after it, or the listing of the release directory fails. Whenever it raises, it
  raises a \<^verbatim>\<open>RuntimeError\<close> (the script has no other error class), \<^verbatim>\<open>run\<close> ends with the
  outcome of the build step itself, so nothing after line 59 is executed, and the only
  external calls of the whole run are \<^verbatim>\<open>mount\<close>, \<^verbatim>\<open>hdiutil detach\<close> and the build
  script: no git, tag, release or formula command.
\<close>

theorem build_failure_aborts_run:
  assumes before: "block (take 5 (run_steps E version_type)) w0 = (Inr (), w1)"
  shows "((\<exists>e. fst (build_app E w1) = Inl e) = build_failure E w1)
       \<and> (build_failure E w1 \<longrightarrow>
            run E version_type w0 = build_app E w1
            \<and> (\<exists>msg. fst (build_app E w1) = Inl (Exn RuntimeError msg))
            \<and> only_calls (early_call E) w0 (snd (run E version_type w0)))"
proof (intro conjI impI)
  show "(\<exists>e. fst (build_app E w1) = Inl e) = build_failure E w1"
    by (rule build_app_raises_iff)
next
  assume "build_failure E w1"
  then obtain e where e: "fst (build_app E w1) = Inl e"
    using build_app_raises_iff by blast
  obtain w2 where b: "build_app E w1 = (Inl e, w2)"
    using e by (cases "build_app E w1") simp
  have "run E version_type w0
        = block (take 5 (run_steps E version_type) @ build_app E # drop 6 (run_steps E version_type)) w0"
    unfolding run_def using run_steps_split_build [of E version_type] by simp
  also have "\<dots> = (Inl e, w2)"
    by (simp add: block_append_apply block_Cons_apply before b)
  finally have r: "run E version_type w0 = (Inl e, w2)" .
  with b show "run E version_type w0 = build_app E w1"
    by simp
  from build_app_raises_RuntimeError [OF e] show "\<exists>msg. fst (build_app E w1) = Inl (Exn RuntimeError msg)"
    using e by (cases e) auto
  have 1: "only_calls (early_call E) w0 w1"
    using early_before_build before by (rule keepsD)
  have 2: "only_calls (early_call E) w1 w2"
    using early_build_app b by (rule keepsD)
  from 1 2 only_calls_preorder [of "early_call E"] have "only_calls (early_call E) w0 w2"
    unfolding preorder_on_worlds_def by blast
  with r show "only_calls (early_call E) w0 (snd (run E version_type w0))"
    by simp
qed

text \<open>
  The two cases of the claim on the concrete machine: the build script exits with
  status 1; and every command exits with status 0 but no bundle appears.
\<close>

theorem build_failure_aborts_run_witness:
  "(let E = demo_env [[''/src/win-dock/build.sh'']] [];
        w1 = snd (block (take 5 (run_steps E ''patch'')) (demo_world demo_files))
    in fst (block (take 5 (run_steps E ''patch'')) (demo_world demo_files)) = Inr ()
     \<and> build_failure E w1
     \<and> fst (run E ''patch'' (demo_world demo_files))
         = Inl (Exn RuntimeError (''Build failed: Command ['' @ quoted ''/src/win-dock/build.sh''
                                   @ ''] returned non-zero exit status 1.''))
     \<and> calls (snd (run E ''patch'' (demo_world demo_files)))
         = [Subprocess [''mount''], Subprocess [''/src/win-dock/build.sh'']])
   \<and> (let E = quiet_env;
        w1 = snd (block (take 5 (run_steps E ''patch'')) (demo_world demo_files))
    in fst (block (take 5 (run_steps E ''patch'')) (demo_world demo_files)) = Inr ()
     \<and> build_failure E w1
     \<and> fst (run E ''patch'' (demo_world demo_files))
         = Inl (Exn RuntimeError (''Error during build process: Build failed - WinDock.app not found at ''
                                   @ ''/src/win-dock/build/Build/Products/Release/WinDock.app''))
     \<and> calls (snd (run E ''patch'' (demo_world demo_files)))
         = [Subprocess [''mount''], Subprocess [''/src/win-dock/build.sh'']])"
proof -
  let ?E1 = "demo_env [[''/src/win-dock/build.sh'']] []"
  let ?W = "demo_world demo_files"
  let ?b1 = "block (take 5 (run_steps ?E1 ''patch'')) ?W"
  let ?b2 = "block (take 5 (run_steps quiet_env ''patch'')) ?W"
  have f1: "fst ?b1 = Inr ()" by code_simp
  have f2: "fst ?b2 = Inr ()" by code_simp
  have h1: "?b1 = (Inr (), snd ?b1)" using f1 by (metis prod.collapse)
  have h2: "?b2 = (Inr (), snd ?b2)" using f2 by (metis prod.collapse)
  have g1: "build_failure ?E1 (snd ?b1)" by code_simp
  have g2: "build_failure quiet_env (snd ?b2)" by code_simp
  have r1: "fst (run ?E1 ''patch'' ?W)
         = Inl (Exn RuntimeError (''Build failed: Command ['' @ quoted ''/src/win-dock/build.sh''
                                   @ ''] returned non-zero exit status 1.''))"
    by code_simp
  have r2: "fst (run quiet_env ''patch'' ?W)
         = Inl (Exn RuntimeError (''Error during build process: Build failed - WinDock.app not found at ''
                                   @ ''/src/win-dock/build/Build/Products/Release/WinDock.app''))"
    by code_simp
  have c1: "calls (snd (run ?E1 ''patch'' ?W)) = [Subprocess [''mount''], Subprocess [''/src/win-dock/build.sh'']]"
    by code_simp
  have c2: "calls (snd (run quiet_env ''patch'' ?W)) = [Subprocess [''mount''], Subprocess [''/src/win-dock/build.sh'']]"
    by code_simp
  show ?thesis
    using build_failure_aborts_run [OF h1] build_failure_aborts_run [OF h2] f1 f2 g1 g2 r1 r2 c1 c2
    by (simp add: Let_def)
qed

text \<open>
  Claim C3 as stated fails: here the build script is there but cannot be started (its
  interpreter is missing), so the build procedure has no exit status at all, and the
  build step raises all the same.
\<close>

theorem build_failure_without_exit_status:
  "fst (build_app (demo_env [] [''/src/win-dock/build.sh'']) (demo_world demo_files))
     = Inl (Exn RuntimeError (''Error during build process: [Errno 2] No such file or directory: [''
                               @ quoted ''/src/win-dock/build.sh'' @ '']''))
   \<and> \<not> claimed_build_failure (demo_env [] [''/src/win-dock/build.sh'']) (demo_world demo_files)"
  by code_simp

subsection \<open>The release step without a client\<close>

lemma block_Inr_append2:
  assumes "block (xs @ [a, b]) w0 = (Inr (), w1)"
  shows "\<exists>wa wb. block xs w0 = (Inr (), wa) \<and> a wa = (Inr (), wb) \<and> b wb = (Inr (), w1)"
  using assms
  by (auto simp: block_append_apply block_Cons_apply block_Nil_apply
      split: prod.splits sum.splits)

lemma create_tag_needs_tag_name: "create_tag E w = (Inr x, w') \<Longrightarrow> tag_name w \<noteq> None"
  by (auto simp: create_tag_def get_tag_name_def prog_apply split: option.splits)

lemma steadyD: "keeps steady m \<Longrightarrow> m w = (r, w') \<Longrightarrow> steady w w'"
  by (rule keepsD)

lemma tag_name_after_notes:
  assumes "block (take 9 (run_steps E t)) w0 = (Inr (), w1)"
  shows "tag_name w1 \<noteq> None"
proof -
  have "take 9 (run_steps E t) = take 7 (run_steps E t) @ [create_tag E, generate_release_notes E]"
    by (simp add: run_steps_def)
  with assms obtain wa wb where
    "create_tag E wa = (Inr (), wb)" "generate_release_notes E wb = (Inr (), w1)"
    using block_Inr_append2 by metis
  then show ?thesis
    using create_tag_needs_tag_name steadyD [OF steady_create_tag] steadyD [OF steady_generate_release_notes]
    by (metis steady_def)
qed

lemma has_gh_cli_False:
  assumes "has_gh_cli E w = (Inr False, wp)"
  shows "calls wp = calls w @ [Subprocess [''gh'', ''--version'']] \<and> out wp = out w
         \<and> tag_name wp = tag_name w \<and> new_version wp = new_version w \<and> dry_run wp = dry_run w
         \<and> (fs wp = fs w \<or> (\<exists>rc so se. proc E (length (calls w)) [''gh'', ''--version''] (cwd w) (fs w)
                                  = Completed rc so se (fs wp) \<and> rc \<noteq> 0))"
  using assms
  by (auto simp: has_gh_cli_def prog_apply subprocess_run_apply
      split: proc_outcome.splits if_splits)


lemma run_steps_split_release:
  "run_steps E t = take 9 (run_steps E t) @ create_github_release E # drop 10 (run_steps E t)"
  by (simp add: run_steps_def)

lemma steady_rest_after_release: "keeps steady (block [submit_to_homebrew E, cleanup E])"
  by (auto intro!: steady_rules steady_submit_to_homebrew steady_cleanup)

lemma rest_after_release_out:
  assumes "block (drop 10 (run_steps E t)) w2 = (Inr (), w_end)"
  shows "\<exists>w3. steady w2 w3
           \<and> out w_end = out w3 @ [''Release process completed successfully! Version ''
                                    @ str_opt (new_version w3) @ '' released.'',
                 ''If Homebrew tap submission was successful, the formula will be available in your tap.'']"
proof -
  have d: "drop 10 (run_steps E t) = [submit_to_homebrew E, cleanup E]
        @ [reading (\<lambda>w. say (''Release process completed successfully! Version ''
                               @ str_opt (new_version w) @ '' released.'')),
           say ''If Homebrew tap submission was successful, the formula will be available in your tap.'']"
    by (simp add: run_steps_def)
  obtain r3 w3 where 1: "block [submit_to_homebrew E, cleanup E] w2 = (r3, w3)"
    by (cases "block [submit_to_homebrew E, cleanup E] w2")
  from assms have a: "block ([submit_to_homebrew E, cleanup E]
        @ [reading (\<lambda>w. say (''Release process completed successfully! Version ''
                               @ str_opt (new_version w) @ '' released.'')),
           say ''If Homebrew tap submission was successful, the formula will be available in your tap.'']) w2
        = (Inr (), w_end)"
    by (simp only: d)
  have r3: "r3 = Inr ()"
    using a 1 by (cases r3)
      (auto simp: block_Cons_apply block_Nil_apply prog_apply split: prod.splits sum.splits)
  have 2: "out w_end = out w3 @ [''Release process completed successfully! Version ''
                                    @ str_opt (new_version w3) @ '' released.'',
                 ''If Homebrew tap submission was successful, the formula will be available in your tap.'']"
    using a 1 r3
    by (auto simp: block_Cons_apply block_Nil_apply prog_apply split: prod.splits sum.splits)
  from steadyD [OF steady_rest_after_release 1] 2 show ?thesis
    by blast
qed

lemma release_skip_step:
  assumes reach: "block (take 9 (run_steps E version_type)) w0 = (Inr (), w1)"
    and live: "\<not> dry_run w1"
    and no_lib: "\<not> have_pygithub E"
    and probe: "has_gh_cli E (w1\<lparr>out := out w1 @ [''Creating GitHub release...'']\<rparr>) = (Inr False, wp)"
  shows "create_github_release E w1 =
     (Inr (), wp\<lparr>out := out wp @
                    [''Neither GitHub CLI (gh) nor PyGithub found. Skipping GitHub release creation.'',
                     ''To create the release manually, go to the repository's releases page'',
                     ''and create a new release with tag '' @ quoted (str_opt (tag_name w1)) @ ''.'']\<rparr>)"
proof -
  obtain tag where tag: "tag_name w1 = Some tag"
    using tag_name_after_notes [OF reach] by auto
  note p = has_gh_cli_False [OF probe]
  show ?thesis
    using live no_lib probe p tag
    by (simp add: create_github_release_def prog_apply get_tag_name_def str_opt_def)
qed

lemma run_after_release:
  assumes "block (take 9 (run_steps E version_type)) w0 = (Inr (), w1)"
    and "create_github_release E w1 = (Inr (), w2)"
  shows "run E version_type w0 = block (drop 10 (run_steps E version_type)) w2"
proof -
  have "run E version_type w0
        = block (take 9 (run_steps E version_type) @ create_github_release E
                 # drop 10 (run_steps E version_type)) w0"
    unfolding run_def using run_steps_split_release [of E version_type] by simp
  also have "\<dots> = block (drop 10 (run_steps E version_type)) w2"
    using assms by (simp add: block_append_apply block_Cons_apply)
  finally show ?thesis .
qed

text \<open>
  Claim C10. Let the statements of \<^verbatim>\<open>run\<close> up to the release notes return normally and
  leave state \<open>w1\<close>, in a run that is not a dry run; let PyGithub be absent and let the probe
  \<^verbatim>\<open>gh --version\<close> find no GitHub CLI (it cannot be found, or exits with an error). Then
  \<^verbatim>\<open>create_github_release\<close> returns normally after printing the three lines about the
  manual release: its only external call is the probe and the file system is the one of
  \<open>w1\<close> (or the one the failing probe left), so the packaging of lines 542 to 558 is not
  executed and no archive is written. If the remaining statements of \<^verbatim>\<open>run\<close> return
  normally, so does \<^verbatim>\<open>run\<close>, and both the skip notice and the line reporting success are
  in the output.
\<close>

theorem release_skipped_without_client:
  assumes reach: "block (take 9 (run_steps E version_type)) w0 = (Inr (), w1)"
    and live: "\<not> dry_run w1"
    and no_lib: "\<not> have_pygithub E"
    and probe: "has_gh_cli E (w1\<lparr>out := out w1 @ [''Creating GitHub release...'']\<rparr>) = (Inr False, wp)"
    and rest: "block (drop 10 (run_steps E version_type))
                 (wp\<lparr>out := out wp @
                    [''Neither GitHub CLI (gh) nor PyGithub found. Skipping GitHub release creation.'',
                     ''To create the release manually, go to the repository's releases page'',
                     ''and create a new release with tag '' @ quoted (str_opt (tag_name w1)) @ ''.'']\<rparr>)
               = (Inr (), w_end)"
  shows "(let w2 = wp\<lparr>out := out wp @
                    [''Neither GitHub CLI (gh) nor PyGithub found. Skipping GitHub release creation.'',
                     ''To create the release manually, go to the repository's releases page'',
                     ''and create a new release with tag '' @ quoted (str_opt (tag_name w1)) @ ''.'']\<rparr>
          in create_github_release E w1 = (Inr (), w2)
           \<and> calls w2 = calls w1 @ [Subprocess [''gh'', ''--version'']]
           \<and> (fs w2 = fs w1
                \<or> (\<exists>rc so se. proc E (length (calls w1)) [''gh'', ''--version''] (cwd w1) (fs w1)
                                = Completed rc so se (fs w2) \<and> rc \<noteq> 0))
           \<and> run E version_type w0 = (Inr (), w_end)
           \<and> ''Neither GitHub CLI (gh) nor PyGithub found. Skipping GitHub release creation.''
                \<in> set (out w_end)
           \<and> (''Release process completed successfully! Version '' @ str_opt (new_version w1)
                @ '' released.'') \<in> set (out w_end))"
proof -
  let ?w2 = "wp\<lparr>out := out wp @
                    [''Neither GitHub CLI (gh) nor PyGithub found. Skipping GitHub release creation.'',
                     ''To create the release manually, go to the repository's releases page'',
                     ''and create a new release with tag '' @ quoted (str_opt (tag_name w1)) @ ''.'']\<rparr>"
  note p = has_gh_cli_False [OF probe]
  note step = release_skip_step [OF reach live no_lib probe]
  have r: "run E version_type w0 = (Inr (), w_end)"
    using run_after_release [OF reach step] rest by simp
  from rest_after_release_out [OF rest] obtain w3 where
    s: "steady ?w2 w3" and
    o: "out w_end = out w3 @ [''Release process completed successfully! Version ''
                                    @ str_opt (new_version w3) @ '' released.'',
                 ''If Homebrew tap submission was successful, the formula will be available in your tap.'']"
    by blast
  from s p have nv: "new_version w3 = new_version w1"
    by (simp add: steady_def)
  from s have "prefix (out ?w2) (out w3)"
    unfolding steady_def by (rule conjunct1)
  then have "set (out ?w2) \<subseteq> set (out w3)"
    by (rule set_mono_prefix)
  moreover have "''Neither GitHub CLI (gh) nor PyGithub found. Skipping GitHub release creation.''
                \<in> set (out ?w2)"
    by simp
  ultimately have skip: "''Neither GitHub CLI (gh) nor PyGithub found. Skipping GitHub release creation.''
                \<in> set (out w_end)"
    using o by auto
  show ?thesis
    unfolding Let_def
    using step p r skip o nv by simp
qed

text \<open>
  On the concrete machine without \<^verbatim>\<open>gh\<close>: the bundle is built, the probe finds no client,
  the run returns normally with the success line last, and no \<^verbatim>\<open>WinDock.zip\<close> exists
  at the end.
\<close>

theorem release_skipped_without_client_witness:
  "(let E = demo_env [] [''gh''];
        W = demo_world demo_files;
        w1 = snd (block (take 9 (run_steps E ''patch'')) W)
    in fst (block (take 9 (run_steps E ''patch'')) W) = Inr ()
     \<and> \<not> dry_run w1
     \<and> \<not> have_pygithub E
     \<and> fs w1 (app_path E) = Some Dir
     \<and> fst (has_gh_cli E (w1\<lparr>out := out w1 @ [''Creating GitHub release...'']\<rparr>)) = Inr False
     \<and> fst (run E ''patch'' W) = Inr ()
     \<and> fs (snd (run E ''patch'' W)) (app_zip_file E) = None
     \<and> last (out (snd (run E ''patch'' W)))
         = ''If Homebrew tap submission was successful, the formula will be available in your tap.'')"
proof -
  let ?E = "demo_env [] [''gh'']"
  let ?W = "demo_world demo_files"
  let ?b = "block (take 9 (run_steps ?E ''patch'')) ?W"
  let ?w1 = "snd ?b"
  let ?p = "has_gh_cli ?E (?w1\<lparr>out := out ?w1 @ [''Creating GitHub release...'']\<rparr>)"
  let ?w2 = "(snd ?p)\<lparr>out := out (snd ?p) @
                    [''Neither GitHub CLI (gh) nor PyGithub found. Skipping GitHub release creation.'',
                     ''To create the release manually, go to the repository's releases page'',
                     ''and create a new release with tag '' @ quoted (str_opt (tag_name ?w1)) @ ''.'']\<rparr>"
  let ?r = "block (drop 10 (run_steps ?E ''patch'')) ?w2"
  have B: "case ?b of (res, w1) \<Rightarrow>
             res = Inr () \<and> \<not> dry_run w1 \<and> fs w1 (app_path ?E) = Some Dir
             \<and> fst (has_gh_cli ?E (w1\<lparr>out := out w1 @ [''Creating GitHub release...'']\<rparr>)) = Inr False"
    by code_simp
  have R: "case run ?E ''patch'' ?W of (res, w) \<Rightarrow>
             res = Inr () \<and> fs w (app_zip_file ?E) = None
             \<and> last (out w)
                = ''If Homebrew tap submission was successful, the formula will be available in your tap.''"
    by code_simp
  note B' = B [unfolded case_prod_beta]
  note R' = R [unfolded case_prod_beta]
  have f1: "fst ?b = Inr ()" by (rule B' [THEN conjunct1])
  have live: "\<not> dry_run ?w1" by (rule B' [THEN conjunct2, THEN conjunct1])
  have a: "fs ?w1 (app_path ?E) = Some Dir" by (rule B' [THEN conjunct2, THEN conjunct2, THEN conjunct1])
  have f2: "fst ?p = Inr False" by (rule B' [THEN conjunct2, THEN conjunct2, THEN conjunct2])
  have r: "fst (run ?E ''patch'' ?W) = Inr ()" by (rule R' [THEN conjunct1])
  have nolib: "\<not> have_pygithub ?E" by code_simp
  have h1: "?b = (Inr (), ?w1)" using f1 by (simp add: prod_eq_iff)
  have h2: "?p = (Inr False, snd ?p)" using f2 by (simp add: prod_eq_iff)
  have "run ?E ''patch'' ?W = ?r"
    by (rule run_after_release [OF h1 release_skip_step [OF h1 live nolib h2]])
  with r have f3: "fst ?r = Inr ()" by (simp only:)
  have h3: "?r = (Inr (), snd ?r)" using f3 by (simp add: prod_eq_iff)
  note T = release_skipped_without_client [OF h1 live nolib h2 h3, unfolded Let_def]
  have r': "fst (run ?E ''patch'' ?W) = Inr ()"
    by (simp only: T [THEN conjunct2, THEN conjunct2, THEN conjunct2, THEN conjunct1] fst_conv)
  show ?thesis
    unfolding Let_def by (intro conjI f1 live nolib a f2 r' R' [THEN conjunct2, THEN conjunct1]
        R' [THEN conjunct2, THEN conjunct2])
qed

subsection \<open>A failing push\<close>

















subsection \<open>Release notes\<close>





subsection \<open>The checksum of the formula\<close>


lemma expand_template_plain:
  "CHR 0x5C \<notin> set repl \<Longrightarrow> expand_template E repl = Inr (\<lambda>matched. repl)"
  by (simp add: expand_template_def)




subsection \<open>The working directory during the tap submission\<close>



































end
